theory Spec2Isabelle
  imports Main "HOL-Library.Word"
begin

section \<open>WakeAssist: alarm controller and hardware abstraction\<close>

text \<open>
  A shallow embedding of \<^verbatim>\<open>firmware/src/hardware.cpp\<close> and
  \<^verbatim>\<open>firmware/src/alarm_controller.cpp\<close>. On the ESP32 an \<^verbatim>\<open>unsigned long\<close> has 32
  bits, so every timestamp is a \<open>32 word\<close> and subtraction wraps as in the C++ code.

  Conventions of the embedding:
  \<^item> \<^verbatim>\<open>millis()\<close> is an input. Every operation that reads the clock takes the reading as
    its first argument \<open>now\<close>; the several reads inside one call are taken to return the
    same value.
  \<^item> The two global objects \<^verbatim>\<open>hardware\<close> and \<^verbatim>\<open>alarmController\<close>, the PWM duty registers,
    the bot's online flag and the function-local static \<^verbatim>\<open>lastCheck\<close> of
    \<^verbatim>\<open>AlarmController::update\<close> are the fields of one record \<open>World\<close>.
  \<^item> The field \<open>trace\<close> of the world is an execution log, in program order, of every PWM
    write, pin write, blocking delay and message handed to the bot, and of three points
    of the controller's control flow: a call of \<^verbatim>\<open>sendTelegramNotification\<close>, a call of
    \<^verbatim>\<open>calculateStatistics\<close>, and a state change performed by \<^verbatim>\<open>transitionToState\<close>.
  \<^item> The \<^verbatim>\<open>DEBUG_PRINT\<close> macros are not modelled, nor are the WiFi and status LEDs, the
    blink timing of \<^verbatim>\<open>updateLEDs\<close> and the two string-valued status queries.
\<close>

type_synonym u8 = "8 word"
type_synonym u16 = "16 word"
type_synonym u32 = "32 word"

subsection \<open>config.h\<close>

abbreviation (input) PIN_SMALL_BUZZER :: nat where "PIN_SMALL_BUZZER \<equiv> 25"
abbreviation (input) PIN_LARGE_BUZZER :: nat where "PIN_LARGE_BUZZER \<equiv> 26"
abbreviation (input) PIN_LED_WIFI :: nat where "PIN_LED_WIFI \<equiv> 16"
abbreviation (input) PIN_LED_ALARM :: nat where "PIN_LED_ALARM \<equiv> 17"
abbreviation (input) PIN_LED_STATUS :: nat where "PIN_LED_STATUS \<equiv> 18"

abbreviation (input) BUTTON_DEBOUNCE_MS :: u32 where "BUTTON_DEBOUNCE_MS \<equiv> 50"
abbreviation (input) RESET_HOLD_TIME_MS :: u32 where "RESET_HOLD_TIME_MS \<equiv> 10000"

abbreviation (input) LED_BLINK_SLOW :: u16 where "LED_BLINK_SLOW \<equiv> 1000"
abbreviation (input) LED_BLINK_MEDIUM :: u16 where "LED_BLINK_MEDIUM \<equiv> 500"
abbreviation (input) LED_BLINK_FAST :: u16 where "LED_BLINK_FAST \<equiv> 200"

abbreviation (input) ALARM_WARNING_DURATION_MS :: u32 where "ALARM_WARNING_DURATION_MS \<equiv> 30000"
abbreviation (input) ALARM_ALERT_DURATION_MS :: u32 where "ALARM_ALERT_DURATION_MS \<equiv> 30000"
abbreviation (input) ALARM_SAFETY_TIMEOUT_MS :: u32 where "ALARM_SAFETY_TIMEOUT_MS \<equiv> 300000"
abbreviation (input) ALARM_TRIGGERED_DELAY_MS :: u32 where "ALARM_TRIGGERED_DELAY_MS \<equiv> 3000"

abbreviation (input) BUZZER_PWM_CHANNEL_SMALL :: nat where "BUZZER_PWM_CHANNEL_SMALL \<equiv> 0"
abbreviation (input) BUZZER_PWM_CHANNEL_LARGE :: nat where "BUZZER_PWM_CHANNEL_LARGE \<equiv> 1"
abbreviation (input) BUZZER_OFF :: u8 where "BUZZER_OFF \<equiv> 0"
abbreviation (input) BUZZER_ON :: u8 where "BUZZER_ON \<equiv> 255"
abbreviation (input) BUZZER_PULSE_ON_MS :: u32 where "BUZZER_PULSE_ON_MS \<equiv> 500"
abbreviation (input) BUZZER_PULSE_OFF_MS :: u32 where "BUZZER_PULSE_OFF_MS \<equiv> 500"

text \<open>
  The message templates of config.h. \<open>MSG_ALARM_STOPPED\<close> carries the two arguments that
  \<^verbatim>\<open>snprintf\<close> formats into it: the duration in seconds and the source label.
\<close>

datatype Message =
    MSG_WAKE_RECEIVED
  | MSG_WARNING_STARTED
  | MSG_ALERT_STARTED
  | MSG_EMERGENCY_STARTED
  | MSG_ALARM_STOPPED u32 string
  | MSG_ALARM_TIMEOUT
  | MSG_ERROR_BUZZER_SMALL
  | MSG_ERROR_BUZZER_LARGE
  | MSG_ERROR_BOTH_BUZZERS
  | MSG_TEST_START
  | MSG_TEST_SMALL
  | MSG_TEST_LARGE
  | MSG_TEST_COMPLETE

subsection \<open>hardware.h and alarm_controller.h: the data\<close>

datatype HardwareStatus =
  HW_STATUS_UNKNOWN | HW_STATUS_OK | HW_STATUS_FAILED | HW_STATUS_DISABLED

record HardwareState =
  smallBuzzer :: HardwareStatus
  largeBuzzer :: HardwareStatus
  buttonTest :: bool
  buttonSilence :: bool
  buttonReset :: bool
  resetButtonPressTime :: u32
  ledsEnabled :: bool

text \<open>\<^verbatim>\<open>LEDState::currentState\<close> is renamed: the controller has a member of that name.\<close>

record LEDState =
  enabled :: bool
  ledCurrentState :: bool
  interval :: u16
  lastToggle :: u32

record ButtonState =
  lastReading :: bool
  stableState :: bool
  lastChange :: u32

record Hardware =
  state :: HardwareState
  wifiLED :: LEDState
  alarmLED :: LEDState
  statusLED :: LEDState
  testButton :: ButtonState
  silenceButton :: ButtonState
  resetButton :: ButtonState
  lastPulseToggle :: u32
  pulseState :: bool
  pulseStartTime :: u32

datatype AlarmState =
    ALARM_IDLE
  | ALARM_TRIGGERED
  | ALARM_WARNING
  | ALARM_ALERT
  | ALARM_EMERGENCY
  | ALARM_STOPPED_USER
  | ALARM_STOPPED_TIMEOUT
  | ALARM_STOPPED_ERROR

datatype AlarmStopSource =
    STOP_NONE
  | STOP_TELEGRAM_COMMAND
  | STOP_SILENCE_BUTTON
  | STOP_SAFETY_TIMEOUT
  | STOP_HARDWARE_ERROR
  | STOP_COMPLETED

record AlarmStatistics =
  startTime :: u32
  stopTime :: u32
  duration :: u32
  stopSource :: AlarmStopSource
  maxStageReached :: AlarmState
  hardwareIssueDetected :: bool

record AlarmController =
  currentState :: AlarmState
  previousState :: AlarmState
  stageStartTime :: u32
  alarmStartTime :: u32
  telegramNotificationsEnabled :: bool
  hardwareChecksEnabled :: bool
  lastStatistics :: AlarmStatistics
  lastHardwareError :: string
  testMode :: bool

datatype Effect =
    LedcWrite nat u8
  | DigitalWrite nat bool
  | Delay nat
  | SendMessage Message
  | Notify Message
  | StatsComputed AlarmStopSource
  | Transition AlarmState AlarmState

record World =
  ctrl :: AlarmController
  hw :: Hardware
  dutySmall :: u8
  dutyLarge :: u8
  botOnline :: bool
  lastCheck :: u32
  trace :: "Effect list"


subsection \<open>hardware.cpp: outputs\<close>

definition emit :: "Effect \<Rightarrow> World \<Rightarrow> World" where
  "emit e w = w\<lparr>trace := trace w @ [e]\<rparr>"

text \<open>\<^verbatim>\<open>ledcWrite\<close> of the Arduino core: sets the duty register of a PWM channel.\<close>

definition ledcWrite :: "nat \<Rightarrow> u8 \<Rightarrow> World \<Rightarrow> World" where
  "ledcWrite channel duty w =
     (let w1 = emit (LedcWrite channel duty) w in
      if channel = BUZZER_PWM_CHANNEL_SMALL then w1\<lparr>dutySmall := duty\<rparr>
      else if channel = BUZZER_PWM_CHANNEL_LARGE then w1\<lparr>dutyLarge := duty\<rparr>
      else w1)"

definition digitalWrite :: "nat \<Rightarrow> bool \<Rightarrow> World \<Rightarrow> World" where
  "digitalWrite pin level w = emit (DigitalWrite pin level) w"

definition delay :: "nat \<Rightarrow> World \<Rightarrow> World" where
  "delay ms w = emit (Delay ms) w"

definition setSmallBuzzer :: "u8 \<Rightarrow> World \<Rightarrow> World" where
  "setSmallBuzzer dutyCycle w = ledcWrite BUZZER_PWM_CHANNEL_SMALL dutyCycle w"

definition setLargeBuzzer :: "u8 \<Rightarrow> World \<Rightarrow> World" where
  "setLargeBuzzer dutyCycle w = ledcWrite BUZZER_PWM_CHANNEL_LARGE dutyCycle w"

definition stopAllBuzzers :: "World \<Rightarrow> World" where
  "stopAllBuzzers w = setLargeBuzzer 0 (setSmallBuzzer 0 w)"

definition pulseSmallBuzzer :: "u32 \<Rightarrow> World \<Rightarrow> bool \<times> World" where
  "pulseSmallBuzzer now w =
     (let currentTime = now;
          w1 = (if pulseStartTime (hw w) = 0
                then setSmallBuzzer BUZZER_ON
                       (w\<lparr>hw := (hw w)\<lparr>pulseStartTime := currentTime,
                                        lastPulseToggle := currentTime,
                                        pulseState := True\<rparr>\<rparr>)
                else w)
      in
      if currentTime - pulseStartTime (hw w1) \<ge> ALARM_WARNING_DURATION_MS then
        (let w2 = stopAllBuzzers w1 in (True, w2\<lparr>hw := (hw w2)\<lparr>pulseStartTime := 0\<rparr>\<rparr>))
      else if pulseState (hw w1) then
        (if currentTime - lastPulseToggle (hw w1) \<ge> BUZZER_PULSE_ON_MS then
           (let w2 = setSmallBuzzer BUZZER_OFF w1 in
            (False, w2\<lparr>hw := (hw w2)\<lparr>pulseState := False, lastPulseToggle := currentTime\<rparr>\<rparr>))
         else (False, w1))
      else
        (if currentTime - lastPulseToggle (hw w1) \<ge> BUZZER_PULSE_OFF_MS then
           (let w2 = setSmallBuzzer BUZZER_ON w1 in
            (False, w2\<lparr>hw := (hw w2)\<lparr>pulseState := True, lastPulseToggle := currentTime\<rparr>\<rparr>))
         else (False, w1)))"

definition setAlarmLED :: "bool \<Rightarrow> World \<Rightarrow> World" where
  "setAlarmLED st w =
     (if \<not> ledsEnabled (state (hw w)) then w
      else (let w1 = digitalWrite PIN_LED_ALARM st w in
            w1\<lparr>hw := (hw w1)\<lparr>alarmLED := (alarmLED (hw w1))\<lparr>enabled := False\<rparr>\<rparr>\<rparr>))"

definition blinkAlarmLED :: "u32 \<Rightarrow> u16 \<Rightarrow> World \<Rightarrow> World" where
  "blinkAlarmLED now ival w =
     w\<lparr>hw := (hw w)\<lparr>alarmLED := (alarmLED (hw w))\<lparr>enabled := True, interval := ival,
                                                   lastToggle := now\<rparr>\<rparr>\<rparr>"

definition testBuzzer :: "nat \<Rightarrow> nat \<Rightarrow> World \<Rightarrow> World" where
  "testBuzzer buzzerPin durationMs w =
     (let channel = (if buzzerPin = PIN_SMALL_BUZZER then BUZZER_PWM_CHANNEL_SMALL
                     else BUZZER_PWM_CHANNEL_LARGE)
      in ledcWrite channel BUZZER_OFF (delay durationMs (ledcWrite channel BUZZER_ON w)))"

subsection \<open>hardware.cpp: buttons\<close>

definition debounceButton :: "u32 \<Rightarrow> bool \<Rightarrow> ButtonState \<Rightarrow> bool \<times> ButtonState" where
  "debounceButton now rawState buttonState =
     (let currentTime = now;
          b1 = (if rawState \<noteq> lastReading buttonState
                then buttonState\<lparr>lastChange := currentTime, lastReading := rawState\<rparr>
                else buttonState);
          b2 = (if currentTime - lastChange b1 > BUTTON_DEBOUNCE_MS
                then (if rawState \<noteq> stableState b1 then b1\<lparr>stableState := rawState\<rparr> else b1)
                else b1)
      in (stableState b2, b2))"

text \<open>
  \<open>testRaw\<close>, \<open>silenceRaw\<close> and \<open>resetRaw\<close> are the three values
  \<^verbatim>\<open>digitalRead(pin) == BUTTON_PRESSED\<close> that \<^verbatim>\<open>updateButtons\<close> reads.
\<close>

definition updateButtons :: "u32 \<Rightarrow> bool \<Rightarrow> bool \<Rightarrow> bool \<Rightarrow> Hardware \<Rightarrow> Hardware" where
  "updateButtons now testRaw silenceRaw resetRaw h =
     (let (bt, tb) = debounceButton now testRaw (testButton h);
          (bs, sb) = debounceButton now silenceRaw (silenceButton h);
          (br, rb) = debounceButton now resetRaw (resetButton h);
          st = (state h)\<lparr>buttonTest := bt, buttonSilence := bs, buttonReset := br\<rparr>;
          st' = (if buttonReset st
                 then (if resetButtonPressTime st = 0 then st\<lparr>resetButtonPressTime := now\<rparr>
                       else st)
                 else st\<lparr>resetButtonPressTime := 0\<rparr>)
      in h\<lparr>testButton := tb, silenceButton := sb, resetButton := rb, state := st'\<rparr>)"

definition isFactoryResetRequested :: "u32 \<Rightarrow> Hardware \<Rightarrow> bool" where
  "isFactoryResetRequested now h =
     (if resetButtonPressTime (state h) = 0 then False
      else (let holdTime = now - resetButtonPressTime (state h) in
            if holdTime \<ge> RESET_HOLD_TIME_MS then True else False))"

subsection \<open>hardware.cpp: construction, initialisation and the circuit check\<close>

definition Hardware_init :: Hardware where
  "Hardware_init =
     \<lparr>state = \<lparr>smallBuzzer = HW_STATUS_UNKNOWN, largeBuzzer = HW_STATUS_UNKNOWN,
               buttonTest = False, buttonSilence = False, buttonReset = False,
               resetButtonPressTime = 0, ledsEnabled = True\<rparr>,
      wifiLED = \<lparr>enabled = False, ledCurrentState = False, interval = 0, lastToggle = 0\<rparr>,
      alarmLED = \<lparr>enabled = False, ledCurrentState = False, interval = 0, lastToggle = 0\<rparr>,
      statusLED = \<lparr>enabled = False, ledCurrentState = False, interval = 0, lastToggle = 0\<rparr>,
      testButton = \<lparr>lastReading = False, stableState = False, lastChange = 0\<rparr>,
      silenceButton = \<lparr>lastReading = False, stableState = False, lastChange = 0\<rparr>,
      resetButton = \<lparr>lastReading = False, stableState = False, lastChange = 0\<rparr>,
      lastPulseToggle = 0, pulseState = False, pulseStartTime = 0\<rparr>"

definition setupPWM :: "World \<Rightarrow> World" where
  "setupPWM w = ledcWrite BUZZER_PWM_CHANNEL_LARGE 0 (ledcWrite BUZZER_PWM_CHANNEL_SMALL 0 w)"

text \<open>
  \<open>smallHigh\<close> and \<open>largeHigh\<close> are the two read-backs
  \<^verbatim>\<open>digitalRead(pin) == HIGH\<close> of the circuit check.
\<close>

definition checkBuzzerCircuits :: "bool \<Rightarrow> bool \<Rightarrow> World \<Rightarrow> bool \<times> World" where
  "checkBuzzerCircuits smallHigh largeHigh w =
     (let w1 = digitalWrite PIN_SMALL_BUZZER True w;
          w2 = w1\<lparr>hw := (hw w1)\<lparr>state := (state (hw w1))
                  \<lparr>smallBuzzer := (if smallHigh then HW_STATUS_OK else HW_STATUS_FAILED)\<rparr>\<rparr>\<rparr>;
          w3 = digitalWrite PIN_SMALL_BUZZER False w2;
          w4 = digitalWrite PIN_LARGE_BUZZER True w3;
          w5 = w4\<lparr>hw := (hw w4)\<lparr>state := (state (hw w4))
                  \<lparr>largeBuzzer := (if largeHigh then HW_STATUS_OK else HW_STATUS_FAILED)\<rparr>\<rparr>\<rparr>;
          w6 = digitalWrite PIN_LARGE_BUZZER False w5
      in (smallHigh \<and> largeHigh, w6))"

definition Hardware_begin :: "bool \<Rightarrow> bool \<Rightarrow> World \<Rightarrow> bool \<times> World" where
  "Hardware_begin smallHigh largeHigh w =
     (let w1 = digitalWrite PIN_LARGE_BUZZER False (digitalWrite PIN_SMALL_BUZZER False w);
          w2 = digitalWrite PIN_LED_STATUS False
                 (digitalWrite PIN_LED_ALARM False (digitalWrite PIN_LED_WIFI False w1));
          w3 = setupPWM w2
      in (True, snd (checkBuzzerCircuits smallHigh largeHigh w3)))"

subsection \<open>alarm_controller.cpp\<close>

definition AlarmController_init :: AlarmController where
  "AlarmController_init =
     \<lparr>currentState = ALARM_IDLE, previousState = ALARM_IDLE,
      stageStartTime = 0, alarmStartTime = 0,
      telegramNotificationsEnabled = True, hardwareChecksEnabled = True,
      lastStatistics = \<lparr>startTime = 0, stopTime = 0, duration = 0, stopSource = STOP_NONE,
                        maxStageReached = ALARM_IDLE, hardwareIssueDetected = False\<rparr>,
      lastHardwareError = [], testMode = False\<rparr>"

definition AlarmController_begin :: "World \<Rightarrow> bool \<times> World" where
  "AlarmController_begin w =
     (if smallBuzzer (state (hw w)) = HW_STATUS_UNKNOWN then (False, w)
      else (let w1 = stopAllBuzzers w in
            (True, w1\<lparr>ctrl := (ctrl w1)\<lparr>currentState := ALARM_IDLE\<rparr>\<rparr>)))"

definition isActive :: "AlarmController \<Rightarrow> bool" where
  "isActive c =
     (currentState c \<noteq> ALARM_IDLE \<and>
      currentState c \<noteq> ALARM_STOPPED_USER \<and>
      currentState c \<noteq> ALARM_STOPPED_TIMEOUT \<and>
      currentState c \<noteq> ALARM_STOPPED_ERROR)"

definition sendTelegramNotification :: "Message \<Rightarrow> World \<Rightarrow> World" where
  "sendTelegramNotification message w =
     (let w1 = emit (Notify message) w in
      if \<not> telegramNotificationsEnabled (ctrl w1) then w1
      else if \<not> botOnline w1 then w1
      else emit (SendMessage message) w1)"

definition transitionToState :: "u32 \<Rightarrow> AlarmState \<Rightarrow> World \<Rightarrow> World" where
  "transitionToState now newState w =
     (if newState = currentState (ctrl w) then w
      else
        (let w0 = emit (Transition (currentState (ctrl w)) newState) w;
             w1 = w0\<lparr>ctrl := (ctrl w0)\<lparr>previousState := currentState (ctrl w0),
                                         currentState := newState,
                                         stageStartTime := now\<rparr>\<rparr>
         in case newState of
              ALARM_IDLE \<Rightarrow> setAlarmLED False (stopAllBuzzers w1)
            | ALARM_TRIGGERED \<Rightarrow> setAlarmLED True w1
            | ALARM_WARNING \<Rightarrow>
                blinkAlarmLED now LED_BLINK_SLOW (sendTelegramNotification MSG_WARNING_STARTED w1)
            | ALARM_ALERT \<Rightarrow>
                blinkAlarmLED now LED_BLINK_MEDIUM (sendTelegramNotification MSG_ALERT_STARTED w1)
            | ALARM_EMERGENCY \<Rightarrow>
                blinkAlarmLED now LED_BLINK_FAST
                  (sendTelegramNotification MSG_EMERGENCY_STARTED w1)
            | _ \<Rightarrow> w1))"

definition getStateDuration :: "AlarmState \<Rightarrow> u32" where
  "getStateDuration s =
     (case s of
        ALARM_TRIGGERED \<Rightarrow> ALARM_TRIGGERED_DELAY_MS
      | ALARM_WARNING \<Rightarrow> ALARM_WARNING_DURATION_MS
      | ALARM_ALERT \<Rightarrow> ALARM_ALERT_DURATION_MS
      | ALARM_EMERGENCY \<Rightarrow> - 1
      | _ \<Rightarrow> 0)"

definition isStageDurationExceeded :: "u32 \<Rightarrow> AlarmController \<Rightarrow> bool" where
  "isStageDurationExceeded now c =
     (let elapsed = now - stageStartTime c;
          dur = getStateDuration (currentState c)
      in elapsed \<ge> dur)"

definition isSafetyTimeoutReached :: "u32 \<Rightarrow> AlarmController \<Rightarrow> bool" where
  "isSafetyTimeoutReached now c =
     (if alarmStartTime c = 0 then False
      else (let elapsed = now - alarmStartTime c in elapsed \<ge> ALARM_SAFETY_TIMEOUT_MS))"

definition calculateStatistics :: "u32 \<Rightarrow> AlarmStopSource \<Rightarrow> World \<Rightarrow> World" where
  "calculateStatistics now source w =
     (let w1 = emit (StatsComputed source) w;
          c = ctrl w1;
          s1 = (lastStatistics c)\<lparr>startTime := alarmStartTime c, stopTime := now\<rparr>;
          s2 = s1\<lparr>duration := (stopTime s1 - startTime s1) div 1000\<rparr>;
          s3 = s2\<lparr>stopSource := source,
                  maxStageReached := currentState c,
                  hardwareIssueDetected := (source = STOP_HARDWARE_ERROR)\<rparr>
      in w1\<lparr>ctrl := c\<lparr>lastStatistics := s3\<rparr>\<rparr>)"

definition start :: "u32 \<Rightarrow> World \<Rightarrow> bool \<times> World" where
  "start now w =
     (if isActive (ctrl w) then (False, w)
      else
        (let w1 = w\<lparr>ctrl := (ctrl w)\<lparr>alarmStartTime := now, testMode := False\<rparr>\<rparr>;
             w2 = transitionToState now ALARM_TRIGGERED w1;
             w3 = sendTelegramNotification MSG_WAKE_RECEIVED w2
         in (True, w3)))"

definition stop :: "u32 \<Rightarrow> AlarmStopSource \<Rightarrow> World \<Rightarrow> bool \<times> World" where
  "stop now source w =
     (if \<not> isActive (ctrl w) then (False, w)
      else
        (let w1 = stopAllBuzzers w;
             w2 = calculateStatistics now source w1;
             (stopState, w3) =
               (case source of
                  STOP_SAFETY_TIMEOUT \<Rightarrow>
                    (ALARM_STOPPED_TIMEOUT, sendTelegramNotification MSG_ALARM_TIMEOUT w2)
                | STOP_HARDWARE_ERROR \<Rightarrow> (ALARM_STOPPED_ERROR, w2)
                | _ \<Rightarrow>
                    (let sourceStr = (if source = STOP_TELEGRAM_COMMAND then ''Telegram''
                                      else if source = STOP_SILENCE_BUTTON then ''Button''
                                      else ''Unknown'')
                     in (ALARM_STOPPED_USER,
                         sendTelegramNotification
                           (MSG_ALARM_STOPPED (duration (lastStatistics (ctrl w2))) sourceStr)
                           w2)));
             w4 = transitionToState now stopState w3;
             w5 = transitionToState now ALARM_IDLE w4
         in (True, w5)))"

definition updateBuzzerOutput :: "u32 \<Rightarrow> World \<Rightarrow> World" where
  "updateBuzzerOutput now w =
     (case currentState (ctrl w) of
        ALARM_WARNING \<Rightarrow> snd (pulseSmallBuzzer now w)
      | ALARM_ALERT \<Rightarrow> setSmallBuzzer BUZZER_ON w
      | ALARM_EMERGENCY \<Rightarrow> setLargeBuzzer BUZZER_ON w
      | _ \<Rightarrow> w)"

definition checkHardwareHealth :: "World \<Rightarrow> bool \<times> World" where
  "checkHardwareHealth w =
     (let hwState = state (hw w) in
      if (currentState (ctrl w) = ALARM_WARNING \<or> currentState (ctrl w) = ALARM_ALERT)
         \<and> smallBuzzer hwState = HW_STATUS_FAILED
      then (False, sendTelegramNotification MSG_ERROR_BUZZER_SMALL
                     (w\<lparr>ctrl := (ctrl w)\<lparr>lastHardwareError := ''Small buzzer circuit failure''\<rparr>\<rparr>))
      else if currentState (ctrl w) = ALARM_EMERGENCY \<and> largeBuzzer hwState = HW_STATUS_FAILED
      then (False, sendTelegramNotification MSG_ERROR_BUZZER_LARGE
                     (w\<lparr>ctrl := (ctrl w)\<lparr>lastHardwareError := ''Large buzzer circuit failure''\<rparr>\<rparr>))
      else if smallBuzzer hwState = HW_STATUS_FAILED \<and> largeBuzzer hwState = HW_STATUS_FAILED
      then (False, sendTelegramNotification MSG_ERROR_BOTH_BUZZERS
                     (w\<lparr>ctrl := (ctrl w)\<lparr>lastHardwareError := ''Both buzzer circuits failed''\<rparr>\<rparr>))
      else (True, w))"

definition updateIdleState :: "World \<Rightarrow> World" where
  "updateIdleState w = w"

definition updateTriggeredState :: "u32 \<Rightarrow> World \<Rightarrow> World" where
  "updateTriggeredState now w =
     (if isStageDurationExceeded now (ctrl w) then transitionToState now ALARM_WARNING w else w)"

definition updateWarningState :: "u32 \<Rightarrow> World \<Rightarrow> World" where
  "updateWarningState now w =
     (let w1 = updateBuzzerOutput now w in
      if isStageDurationExceeded now (ctrl w1) then transitionToState now ALARM_ALERT w1 else w1)"

definition updateAlertState :: "u32 \<Rightarrow> World \<Rightarrow> World" where
  "updateAlertState now w =
     (let w1 = updateBuzzerOutput now w in
      if isStageDurationExceeded now (ctrl w1) then transitionToState now ALARM_EMERGENCY w1
      else w1)"

definition updateEmergencyState :: "u32 \<Rightarrow> World \<Rightarrow> World" where
  "updateEmergencyState now w = updateBuzzerOutput now w"

text \<open>
  \<^verbatim>\<open>AlarmController::update\<close> is three statements in sequence; each is a definition of
  its own here: the \<^verbatim>\<open>switch\<close> on the current state, the safety timeout, and the
  rate-limited hardware check.
\<close>

definition update_dispatch :: "u32 \<Rightarrow> World \<Rightarrow> World" where
  "update_dispatch now w =
     (case currentState (ctrl w) of
        ALARM_IDLE \<Rightarrow> updateIdleState w
      | ALARM_TRIGGERED \<Rightarrow> updateTriggeredState now w
      | ALARM_WARNING \<Rightarrow> updateWarningState now w
      | ALARM_ALERT \<Rightarrow> updateAlertState now w
      | ALARM_EMERGENCY \<Rightarrow> updateEmergencyState now w
      | _ \<Rightarrow> w)"

definition update_safety :: "u32 \<Rightarrow> World \<Rightarrow> World" where
  "update_safety now w =
     (if isActive (ctrl w) \<and> isSafetyTimeoutReached now (ctrl w)
      then snd (stop now STOP_SAFETY_TIMEOUT w) else w)"

definition update_hardware :: "u32 \<Rightarrow> World \<Rightarrow> World" where
  "update_hardware now w =
     (if isActive (ctrl w) \<and> hardwareChecksEnabled (ctrl w) then
        (if now - lastCheck w \<ge> 10000 then
           (let w1 = w\<lparr>lastCheck := now\<rparr>;
                (ok, w2) = checkHardwareHealth w1
            in if \<not> ok then snd (stop now STOP_HARDWARE_ERROR w2) else w2)
         else w)
      else w)"

definition update :: "u32 \<Rightarrow> World \<Rightarrow> World" where
  "update now w = update_hardware now (update_safety now (update_dispatch now w))"


definition setTelegramNotificationsEnabled :: "bool \<Rightarrow> World \<Rightarrow> World" where
  "setTelegramNotificationsEnabled en w =
     w\<lparr>ctrl := (ctrl w)\<lparr>telegramNotificationsEnabled := en\<rparr>\<rparr>"

definition setHardwareChecksEnabled :: "bool \<Rightarrow> World \<Rightarrow> World" where
  "setHardwareChecksEnabled en w = w\<lparr>ctrl := (ctrl w)\<lparr>hardwareChecksEnabled := en\<rparr>\<rparr>"

definition testAlarm :: "World \<Rightarrow> bool \<times> World" where
  "testAlarm w =
     (if isActive (ctrl w) then (False, w)
      else
        (let w1 = w\<lparr>ctrl := (ctrl w)\<lparr>testMode := True\<rparr>\<rparr>;
             w2 = delay 1000 (sendTelegramNotification MSG_TEST_START w1);
             w3 = delay 3000 (sendTelegramNotification MSG_TEST_SMALL w2);
             w4 = delay 2000 (testBuzzer PIN_SMALL_BUZZER 1000 w3);
             w5 = delay 3000 (sendTelegramNotification MSG_TEST_LARGE w4);
             w6 = delay 1000 (testBuzzer PIN_LARGE_BUZZER 500 w5);
             w7 = sendTelegramNotification MSG_TEST_COMPLETE w6
         in (True, w7\<lparr>ctrl := (ctrl w7)\<lparr>testMode := False\<rparr>\<rparr>)))"

definition reset :: "World \<Rightarrow> World" where
  "reset w =
     (let w1 = stopAllBuzzers w in
      w1\<lparr>ctrl := (ctrl w1)
           \<lparr>currentState := ALARM_IDLE, previousState := ALARM_IDLE,
            stageStartTime := 0, alarmStartTime := 0, lastHardwareError := [],
            lastStatistics := \<lparr>startTime = 0, stopTime = 0, duration = 0,
                               stopSource = STOP_NONE, maxStageReached = ALARM_IDLE,
                               hardwareIssueDetected = False\<rparr>\<rparr>\<rparr>)"

subsection \<open>Program runs\<close>

text \<open>
  The world when the two global objects have been constructed, and after the two calls
  of \<^verbatim>\<open>setup()\<close> that initialise them: \<^verbatim>\<open>hardware.begin()\<close>, then
  \<^verbatim>\<open>alarmController.begin()\<close>. The bot's online flag and the two read-backs of the
  circuit check are inputs. The two setters that \<^verbatim>\<open>setup()\<close> calls afterwards are steps
  of a run.
\<close>

definition constructed :: "bool \<Rightarrow> World" where
  "constructed online =
     \<lparr>ctrl = AlarmController_init, hw = Hardware_init, dutySmall = 0, dutyLarge = 0,
      botOnline = online, lastCheck = 0, trace = []\<rparr>"

definition boot :: "bool \<Rightarrow> bool \<Rightarrow> bool \<Rightarrow> World" where
  "boot online smallHigh largeHigh =
     snd (AlarmController_begin (snd (Hardware_begin smallHigh largeHigh (constructed online))))"

text \<open>
  One step of a run: a call of a public operation of the controller, a poll of the
  buttons, or a change made from outside (the bot going on or off line, a health status
  forced on the two buzzers).
\<close>

datatype Step =
    Start
  | Stop AlarmStopSource
  | Update
  | TestAlarm
  | Reset
  | SetTelegramNotificationsEnabled bool
  | SetHardwareChecksEnabled bool
  | UpdateButtons bool bool bool
  | BotOnline bool
  | ForceHealth HardwareStatus HardwareStatus

fun step :: "u32 \<times> Step \<Rightarrow> World \<Rightarrow> World" where
  "step (now, Start) w = snd (start now w)"
| "step (now, Stop source) w = snd (stop now source w)"
| "step (now, Update) w = update now w"
| "step (now, TestAlarm) w = snd (testAlarm w)"
| "step (now, Reset) w = reset w"
| "step (now, SetTelegramNotificationsEnabled en) w = setTelegramNotificationsEnabled en w"
| "step (now, SetHardwareChecksEnabled en) w = setHardwareChecksEnabled en w"
| "step (now, UpdateButtons t s r) w = w\<lparr>hw := updateButtons now t s r (hw w)\<rparr>"
| "step (now, BotOnline b) w = w\<lparr>botOnline := b\<rparr>"
| "step (now, ForceHealth s l) w =
     w\<lparr>hw := (hw w)\<lparr>state := (state (hw w))\<lparr>smallBuzzer := s, largeBuzzer := l\<rparr>\<rparr>\<rparr>"

definition run :: "(u32 \<times> Step) list \<Rightarrow> World \<Rightarrow> World" where
  "run steps w = fold step steps w"

section \<open>Vocabulary of the properties\<close>

text \<open>
  The stopped state that the \<^verbatim>\<open>switch\<close> of \<^verbatim>\<open>stop\<close> selects for a source, and the label
  it formats into the "alarm stopped" message.
\<close>

fun stoppedState :: "AlarmStopSource \<Rightarrow> AlarmState" where
  "stoppedState STOP_SAFETY_TIMEOUT = ALARM_STOPPED_TIMEOUT"
| "stoppedState STOP_HARDWARE_ERROR = ALARM_STOPPED_ERROR"
| "stoppedState _ = ALARM_STOPPED_USER"

fun sourceLabel :: "AlarmStopSource \<Rightarrow> string" where
  "sourceLabel STOP_TELEGRAM_COMMAND = ''Telegram''"
| "sourceLabel STOP_SILENCE_BUTTON = ''Button''"
| "sourceLabel _ = ''Unknown''"

text \<open>
  The record that \<^verbatim>\<open>calculateStatistics\<close> writes for a stop at clock reading \<open>now\<close>, and
  the world in the middle of \<^verbatim>\<open>stop\<close>, after the buzzers, the statistics and the
  notification and before the two transitions. Both are used to state lemmas about
  \<^verbatim>\<open>stop\<close>; \<open>nextStage\<close> is the escalation order of the stage handlers.
\<close>

definition sessionStatistics :: "u32 \<Rightarrow> AlarmStopSource \<Rightarrow> AlarmController \<Rightarrow> AlarmStatistics" where
  "sessionStatistics now source c =
     \<lparr>startTime = alarmStartTime c, stopTime = now,
      duration = (now - alarmStartTime c) div 1000, stopSource = source,
      maxStageReached = currentState c,
      hardwareIssueDetected = (source = STOP_HARDWARE_ERROR)\<rparr>"

definition stop_notified :: "u32 \<Rightarrow> AlarmStopSource \<Rightarrow> World \<Rightarrow> World" where
  "stop_notified now x w =
     (let w2 = calculateStatistics now x (stopAllBuzzers w) in
      case x of
        STOP_SAFETY_TIMEOUT \<Rightarrow> sendTelegramNotification MSG_ALARM_TIMEOUT w2
      | STOP_HARDWARE_ERROR \<Rightarrow> w2
      | _ \<Rightarrow> sendTelegramNotification
               (MSG_ALARM_STOPPED (duration (lastStatistics (ctrl w2))) (sourceLabel x)) w2)"

fun nextStage :: "AlarmState \<Rightarrow> AlarmState" where
  "nextStage ALARM_TRIGGERED = ALARM_WARNING"
| "nextStage ALARM_WARNING = ALARM_ALERT"
| "nextStage ALARM_ALERT = ALARM_EMERGENCY"
| "nextStage s = s"

text \<open>
  The invariant of runs: a controller that is not active is in Idle, and both PWM duties
  are 0.
\<close>

definition inactive_silent :: "World \<Rightarrow> bool" where
  "inactive_silent w =
     (\<not> isActive (ctrl w) \<longrightarrow>
        currentState (ctrl w) = ALARM_IDLE \<and> dutySmall w = 0 \<and> dutyLarge w = 0)"

text \<open>
  The part of the log written between an earlier world and a later one, the effects of
  one call of \<^verbatim>\<open>sendTelegramNotification\<close>, the notification effects of \<^verbatim>\<open>stop\<close>, and
  the projections of a log to its transitions, to the notifications the controller
  emitted, and to the messages that reached the bot.
\<close>

definition effects_of :: "World \<Rightarrow> World \<Rightarrow> Effect list" where
  "effects_of w w' = drop (length (trace w)) (trace w')"

definition notify_effects :: "Message \<Rightarrow> World \<Rightarrow> Effect list" where
  "notify_effects m w =
     Notify m # (if telegramNotificationsEnabled (ctrl w) \<and> botOnline w then [SendMessage m] else [])"

fun stop_message :: "u32 \<Rightarrow> AlarmStopSource \<Rightarrow> World \<Rightarrow> Effect list" where
  "stop_message now STOP_SAFETY_TIMEOUT w = notify_effects MSG_ALARM_TIMEOUT w"
| "stop_message now STOP_HARDWARE_ERROR w = []"
| "stop_message now x w =
     notify_effects (MSG_ALARM_STOPPED ((now - alarmStartTime (ctrl w)) div 1000) (sourceLabel x)) w"

fun transitions_of :: "Effect list \<Rightarrow> (AlarmState \<times> AlarmState) list" where
  "transitions_of [] = []"
| "transitions_of (Transition a b # es) = (a, b) # transitions_of es"
| "transitions_of (_ # es) = transitions_of es"

fun notifications_of :: "Effect list \<Rightarrow> Message list" where
  "notifications_of [] = []"
| "notifications_of (Notify m # es) = m # notifications_of es"
| "notifications_of (_ # es) = notifications_of es"

fun messages_sent :: "Effect list \<Rightarrow> Message list" where
  "messages_sent [] = []"
| "messages_sent (SendMessage m # es) = m # messages_sent es"
| "messages_sent (_ # es) = messages_sent es"

text \<open>
  A button polled at a list of samples (clock reading, raw reading): the state of the
  debouncer after the polls, and the number of polls at which the stable state changed.
  \<open>chatter r0 t0 ps\<close>: the current run of equal raw readings has reading \<open>r0\<close> and was
  first seen at \<open>t0\<close>, and every sample of \<open>ps\<close> lies within the settle window of the
  first sample of its run. \<open>poll_run\<close> is \<^verbatim>\<open>updateButtons\<close> called at a list of polls.
\<close>

fun debounce_run :: "ButtonState \<Rightarrow> (u32 \<times> bool) list \<Rightarrow> ButtonState" where
  "debounce_run b [] = b"
| "debounce_run b ((t, r) # ps) = debounce_run (snd (debounceButton t r b)) ps"

fun stable_changes :: "ButtonState \<Rightarrow> (u32 \<times> bool) list \<Rightarrow> nat" where
  "stable_changes b [] = 0"
| "stable_changes b ((t, r) # ps) =
     (if stableState (snd (debounceButton t r b)) \<noteq> stableState b then 1 else 0)
       + stable_changes (snd (debounceButton t r b)) ps"

fun chatter :: "bool \<Rightarrow> u32 \<Rightarrow> (u32 \<times> bool) list \<Rightarrow> bool" where
  "chatter r0 t0 [] = True"
| "chatter r0 t0 ((t, r) # ps) =
     (if r = r0 then t - t0 \<le> BUTTON_DEBOUNCE_MS \<and> chatter r0 t0 ps else chatter r t ps)"

definition poll_run :: "Hardware \<Rightarrow> (u32 \<times> bool \<times> bool \<times> bool) list \<Rightarrow> Hardware" where
  "poll_run h ps = fold (\<lambda>(t, a, b, c). updateButtons t a b c) ps h"

text \<open>
  The condition under which \<^verbatim>\<open>checkHardwareHealth\<close> reports a failure in stage \<open>s\<close>.
\<close>

definition relevant_failed :: "AlarmState \<Rightarrow> HardwareState \<Rightarrow> bool" where
  "relevant_failed s hs =
     (((s = ALARM_WARNING \<or> s = ALARM_ALERT) \<and> smallBuzzer hs = HW_STATUS_FAILED)
      \<or> (s = ALARM_EMERGENCY \<and> largeBuzzer hs = HW_STATUS_FAILED)
      \<or> (smallBuzzer hs = HW_STATUS_FAILED \<and> largeBuzzer hs = HW_STATUS_FAILED))"

text \<open>
  \<open>updates n t w\<close> is \<open>n\<close> calls of \<^verbatim>\<open>update()\<close> that all read the clock value \<open>t\<close>.
  \<open>ticks t ns w\<close> lets the clock advance one millisecond for each entry \<open>n\<close> of \<open>ns\<close>
  and calls \<^verbatim>\<open>update()\<close> \<open>n + 1\<close> times in that millisecond. \<open>healthy\<close> says that the
  periodic check cannot fail; \<open>phase T k c\<close> is the state of the controller \<open>k\<close>
  milliseconds after a start at \<open>T\<close> (a start at reading 0 never reaches the timeout).
\<close>

fun updates :: "nat \<Rightarrow> u32 \<Rightarrow> World \<Rightarrow> World" where
  "updates 0 t w = w"
| "updates (Suc n) t w = updates n t (update t w)"

fun ticks :: "u32 \<Rightarrow> nat list \<Rightarrow> World \<Rightarrow> World" where
  "ticks t [] w = w"
| "ticks t (n # ns) w = ticks (t + 1) ns (updates (Suc n) (t + 1) w)"

definition healthy :: "World \<Rightarrow> bool" where
  "healthy w =
     (\<not> hardwareChecksEnabled (ctrl w)
      \<or> (smallBuzzer (state (hw w)) \<noteq> HW_STATUS_FAILED
          \<and> largeBuzzer (state (hw w)) \<noteq> HW_STATUS_FAILED))"

definition phase :: "u32 \<Rightarrow> nat \<Rightarrow> AlarmController \<Rightarrow> bool" where
  "phase T k c =
     (alarmStartTime c = T \<and>
      (if k < 3000 then currentState c = ALARM_TRIGGERED \<and> stageStartTime c = T
       else if k < 33000 then currentState c = ALARM_WARNING \<and> stageStartTime c = T + 3000
       else if k < 63000 then currentState c = ALARM_ALERT \<and> stageStartTime c = T + 33000
       else if k < 300000 \<or> T = 0
         then currentState c = ALARM_EMERGENCY \<and> stageStartTime c = T + 63000
       else currentState c = ALARM_IDLE \<and> stopSource (lastStatistics c) = STOP_SAFETY_TIMEOUT))"

section \<open>Lemmas\<close>

lemma emit_simps [simp]:
  "ctrl (emit e w) = ctrl w"
  "hw (emit e w) = hw w"
  "dutySmall (emit e w) = dutySmall w"
  "dutyLarge (emit e w) = dutyLarge w"
  "botOnline (emit e w) = botOnline w"
  "lastCheck (emit e w) = lastCheck w"
  "trace (emit e w) = trace w @ [e]"
  by (simp_all add: emit_def)

lemmas out_defs = ledcWrite_def digitalWrite_def delay_def setSmallBuzzer_def
  setLargeBuzzer_def stopAllBuzzers_def setAlarmLED_def blinkAlarmLED_def
  sendTelegramNotification_def

lemma stopAllBuzzers_simps [simp]:
  "ctrl (stopAllBuzzers w) = ctrl w"
  "hw (stopAllBuzzers w) = hw w"
  "dutySmall (stopAllBuzzers w) = 0"
  "dutyLarge (stopAllBuzzers w) = 0"
  "botOnline (stopAllBuzzers w) = botOnline w"
  "lastCheck (stopAllBuzzers w) = lastCheck w"
  "trace (stopAllBuzzers w) = trace w @ [LedcWrite BUZZER_PWM_CHANNEL_SMALL 0, LedcWrite BUZZER_PWM_CHANNEL_LARGE 0]"
  by (simp_all add: out_defs Let_def)

lemma sendTelegramNotification_simps [simp]:
  "ctrl (sendTelegramNotification m w) = ctrl w"
  "hw (sendTelegramNotification m w) = hw w"
  "dutySmall (sendTelegramNotification m w) = dutySmall w"
  "dutyLarge (sendTelegramNotification m w) = dutyLarge w"
  "botOnline (sendTelegramNotification m w) = botOnline w"
  "lastCheck (sendTelegramNotification m w) = lastCheck w"
  by (simp_all add: out_defs Let_def)

lemma sendTelegramNotification_trace:
  "trace (sendTelegramNotification m w) =
     trace w @ Notify m # (if telegramNotificationsEnabled (ctrl w) \<and> botOnline w then [SendMessage m] else [])"
  by (simp add: out_defs Let_def)

lemma setAlarmLED_simps [simp]:
  "ctrl (setAlarmLED b w) = ctrl w"
  "state (hw (setAlarmLED b w)) = state (hw w)"
  "dutySmall (setAlarmLED b w) = dutySmall w"
  "dutyLarge (setAlarmLED b w) = dutyLarge w"
  "botOnline (setAlarmLED b w) = botOnline w"
  "lastCheck (setAlarmLED b w) = lastCheck w"
  by (simp_all add: out_defs Let_def)

lemma blinkAlarmLED_simps [simp]:
  "ctrl (blinkAlarmLED now i w) = ctrl w"
  "state (hw (blinkAlarmLED now i w)) = state (hw w)"
  "dutySmall (blinkAlarmLED now i w) = dutySmall w"
  "dutyLarge (blinkAlarmLED now i w) = dutyLarge w"
  "botOnline (blinkAlarmLED now i w) = botOnline w"
  "lastCheck (blinkAlarmLED now i w) = lastCheck w"
  "trace (blinkAlarmLED now i w) = trace w"
  by (simp_all add: out_defs Let_def)

lemma transitionToState_ctrl:
  "ctrl (transitionToState now s w) =
     (if s = currentState (ctrl w) then ctrl w
      else (ctrl w)\<lparr>previousState := currentState (ctrl w), currentState := s, stageStartTime := now\<rparr>)"
  by (cases s) (simp_all add: transitionToState_def Let_def)

lemma transitionToState_frame [simp]:
  "state (hw (transitionToState now s w)) = state (hw w)"
  "botOnline (transitionToState now s w) = botOnline w"
  "lastCheck (transitionToState now s w) = lastCheck w"
  by (cases s, simp_all add: transitionToState_def Let_def)+

lemma transitionToState_idle_duty:
  "currentState (ctrl w) \<noteq> ALARM_IDLE \<Longrightarrow>
   dutySmall (transitionToState now ALARM_IDLE w) = 0 \<and> dutyLarge (transitionToState now ALARM_IDLE w) = 0"
  by (simp add: transitionToState_def Let_def)

lemma transitionToState_duty:
  "s \<noteq> ALARM_IDLE \<Longrightarrow> dutySmall (transitionToState now s w) = dutySmall w \<and> dutyLarge (transitionToState now s w) = dutyLarge w"
  by (cases s) (simp_all add: transitionToState_def Let_def)

lemma calculateStatistics_simps [simp]:
  "ctrl (calculateStatistics now x w) = (ctrl w)\<lparr>lastStatistics := sessionStatistics now x (ctrl w)\<rparr>"
  "hw (calculateStatistics now x w) = hw w"
  "dutySmall (calculateStatistics now x w) = dutySmall w"
  "dutyLarge (calculateStatistics now x w) = dutyLarge w"
  "botOnline (calculateStatistics now x w) = botOnline w"
  "lastCheck (calculateStatistics now x w) = lastCheck w"
  "trace (calculateStatistics now x w) = trace w @ [StatsComputed x]"
  by (simp_all add: calculateStatistics_def sessionStatistics_def Let_def)

lemma isActive_stoppedState [simp]: "\<not> isActive (c\<lparr>currentState := stoppedState x\<rparr>)"
  by (cases x) (simp_all add: isActive_def)

lemma stoppedState_neq [simp]: "stoppedState x \<noteq> ALARM_IDLE" "ALARM_IDLE \<noteq> stoppedState x"
  by (cases x, simp_all)+

lemma stop_inactive: "\<not> isActive (ctrl w) \<Longrightarrow> stop now x w = (False, w)"
  by (simp add: stop_def)

lemma stop_active:
  "isActive (ctrl w) \<Longrightarrow>
   stop now x w =
     (True, transitionToState now ALARM_IDLE
              (transitionToState now (stoppedState x) (stop_notified now x w)))"
  by (cases x) (simp_all add: stop_def stop_notified_def Let_def)

lemma stop_notified_simps [simp]:
  "ctrl (stop_notified now x w) = (ctrl w)\<lparr>lastStatistics := sessionStatistics now x (ctrl w)\<rparr>"
  "hw (stop_notified now x w) = hw w"
  "dutySmall (stop_notified now x w) = 0"
  "dutyLarge (stop_notified now x w) = 0"
  "botOnline (stop_notified now x w) = botOnline w"
  "lastCheck (stop_notified now x w) = lastCheck w"
  by (cases x, simp_all add: stop_notified_def Let_def)+

lemma active_neq:
  "isActive c \<Longrightarrow>
     stoppedState x \<noteq> currentState c \<and> ALARM_IDLE \<noteq> currentState c \<and>
     currentState c \<noteq> stoppedState x \<and> currentState c \<noteq> ALARM_IDLE"
  by (cases x) (auto simp: isActive_def)

lemma stop_active_ctrl:
  "isActive (ctrl w) \<Longrightarrow>
   ctrl (snd (stop now x w)) =
     (ctrl w)\<lparr>lastStatistics := sessionStatistics now x (ctrl w),
              previousState := stoppedState x, currentState := ALARM_IDLE,
              stageStartTime := now\<rparr>"
  by (simp add: stop_active transitionToState_ctrl active_neq)

lemma stop_active_duty:
  "isActive (ctrl w) \<Longrightarrow>
   dutySmall (snd (stop now x w)) = 0 \<and> dutyLarge (snd (stop now x w)) = 0"
  by (simp add: stop_active transitionToState_idle_duty transitionToState_ctrl active_neq)

lemma stop_frame [simp]:
  "state (hw (snd (stop now x w))) = state (hw w)"
  "botOnline (snd (stop now x w)) = botOnline w"
  "lastCheck (snd (stop now x w)) = lastCheck w"
  by (cases "isActive (ctrl w)", simp_all add: stop_active stop_inactive)+

lemma start_active: "isActive (ctrl w) \<Longrightarrow> start now w = (False, w)"
  by (simp add: start_def)

lemma start_inactive_ctrl:
  "\<not> isActive (ctrl w) \<Longrightarrow>
   fst (start now w) \<and>
   ctrl (snd (start now w)) =
     (ctrl w)\<lparr>alarmStartTime := now, testMode := False, previousState := currentState (ctrl w),
              currentState := ALARM_TRIGGERED, stageStartTime := now\<rparr>"
  by (auto simp add: start_def Let_def transitionToState_ctrl isActive_def)

lemma start_frame [simp]:
  "state (hw (snd (start now w))) = state (hw w)"
  "botOnline (snd (start now w)) = botOnline w"
  "lastCheck (snd (start now w)) = lastCheck w"
  "dutySmall (snd (start now w)) = dutySmall w"
  "dutyLarge (snd (start now w)) = dutyLarge w"
  by (simp_all add: start_def Let_def transitionToState_duty)

lemma setBuzzer_simps [simp]:
  "ctrl (setSmallBuzzer d w) = ctrl w"
  "hw (setSmallBuzzer d w) = hw w"
  "botOnline (setSmallBuzzer d w) = botOnline w"
  "lastCheck (setSmallBuzzer d w) = lastCheck w"
  "ctrl (setLargeBuzzer d w) = ctrl w"
  "hw (setLargeBuzzer d w) = hw w"
  "botOnline (setLargeBuzzer d w) = botOnline w"
  "lastCheck (setLargeBuzzer d w) = lastCheck w"
  by (simp_all add: out_defs Let_def)

lemma pulseSmallBuzzer_simps [simp]:
  "ctrl (snd (pulseSmallBuzzer now w)) = ctrl w"
  "state (hw (snd (pulseSmallBuzzer now w))) = state (hw w)"
  "botOnline (snd (pulseSmallBuzzer now w)) = botOnline w"
  "lastCheck (snd (pulseSmallBuzzer now w)) = lastCheck w"
  by (simp_all add: pulseSmallBuzzer_def Let_def)

lemma updateBuzzerOutput_simps [simp]:
  "ctrl (updateBuzzerOutput now w) = ctrl w"
  "state (hw (updateBuzzerOutput now w)) = state (hw w)"
  "botOnline (updateBuzzerOutput now w) = botOnline w"
  "lastCheck (updateBuzzerOutput now w) = lastCheck w"
  by (simp_all add: updateBuzzerOutput_def split: AlarmState.splits)

lemma update_dispatch_ctrl:
  "ctrl (update_dispatch now w) =
     (if nextStage (currentState (ctrl w)) \<noteq> currentState (ctrl w)
         \<and> isStageDurationExceeded now (ctrl w)
      then (ctrl w)\<lparr>previousState := currentState (ctrl w),
                    currentState := nextStage (currentState (ctrl w)),
                    stageStartTime := now\<rparr>
      else ctrl w)"
  by (cases "currentState (ctrl w)")
     (simp_all add: update_dispatch_def updateIdleState_def updateTriggeredState_def
        updateWarningState_def updateAlertState_def updateEmergencyState_def Let_def
        transitionToState_ctrl)

lemma update_dispatch_frame [simp]:
  "state (hw (update_dispatch now w)) = state (hw w)"
  "botOnline (update_dispatch now w) = botOnline w"
  "lastCheck (update_dispatch now w) = lastCheck w"
  by (cases "currentState (ctrl w)",
      simp_all add: update_dispatch_def updateIdleState_def updateTriggeredState_def
        updateWarningState_def updateAlertState_def updateEmergencyState_def Let_def)+

lemma update_dispatch_inactive:
  "\<not> isActive (ctrl w) \<Longrightarrow> update_dispatch now w = w"
  by (cases "currentState (ctrl w)")
     (simp_all add: update_dispatch_def updateIdleState_def isActive_def)

lemma update_dispatch_active:
  "isActive (ctrl w) \<Longrightarrow> isActive (ctrl (update_dispatch now w))"
  by (cases "currentState (ctrl w)") (simp_all add: update_dispatch_ctrl isActive_def)

lemma update_safety_inactive:
  "\<not> isActive (ctrl w) \<Longrightarrow> update_safety now w = w"
  by (simp add: update_safety_def)

lemma checkHardwareHealth_simps [simp]:
  "currentState (ctrl (snd (checkHardwareHealth w))) = currentState (ctrl w)"
  "dutySmall (snd (checkHardwareHealth w)) = dutySmall w"
  "dutyLarge (snd (checkHardwareHealth w)) = dutyLarge w"
  "state (hw (snd (checkHardwareHealth w))) = state (hw w)"
  "botOnline (snd (checkHardwareHealth w)) = botOnline w"
  "lastCheck (snd (checkHardwareHealth w)) = lastCheck w"
  by (simp_all add: checkHardwareHealth_def Let_def)

lemma update_hardware_inactive:
  "\<not> isActive (ctrl w) \<Longrightarrow> update_hardware now w = w"
  by (simp add: update_hardware_def)

lemma update_inactive: "\<not> isActive (ctrl w) \<Longrightarrow> update now w = w"
  by (simp add: update_def update_dispatch_inactive update_safety_inactive update_hardware_inactive)

lemma stop_silent: "inactive_silent w \<Longrightarrow> inactive_silent (snd (stop now x w))"
  by (cases "isActive (ctrl w)")
     (simp_all add: inactive_silent_def stop_inactive stop_active_ctrl stop_active_duty)

lemma stop_silent_active: "isActive (ctrl w) \<Longrightarrow> inactive_silent (snd (stop now x w))"
  by (simp add: inactive_silent_def stop_active_ctrl stop_active_duty)

lemma start_silent: "inactive_silent (snd (start now w))"
  by (cases "isActive (ctrl w)")
     (simp_all add: inactive_silent_def start_active start_inactive_ctrl isActive_def)

lemma update_safety_silent:
  "isActive (ctrl w) \<Longrightarrow> inactive_silent (update_safety now w)"
  by (simp add: update_safety_def stop_silent_active) (simp add: inactive_silent_def)

lemma update_hardware_silent:
  "inactive_silent w \<Longrightarrow> inactive_silent (update_hardware now w)"
  by (auto simp add: update_hardware_def Let_def split_beta intro!: stop_silent_active)
     (auto simp add: inactive_silent_def isActive_def)

lemma update_silent: "inactive_silent w \<Longrightarrow> inactive_silent (update now w)"
proof (cases "isActive (ctrl w)")
  case True
  then have "inactive_silent (update_safety now (update_dispatch now w))"
    by (intro update_safety_silent update_dispatch_active)
  then show ?thesis by (simp add: update_def update_hardware_silent)
next
  case False
  assume "inactive_silent w"
  with False show ?thesis by (simp add: update_inactive)
qed

lemma testAlarm_active: "isActive (ctrl w) \<Longrightarrow> testAlarm w = (False, w)"
  by (simp add: testAlarm_def)

lemma testAlarm_silent: "inactive_silent w \<Longrightarrow> inactive_silent (snd (testAlarm w))"
  by (cases "isActive (ctrl w)")
     (simp_all add: testAlarm_active testAlarm_def inactive_silent_def Let_def testBuzzer_def
        ledcWrite_def delay_def isActive_def)

lemma reset_silent: "inactive_silent (reset w)"
  by (simp add: reset_def inactive_silent_def Let_def)

lemma boot_silent: "inactive_silent (boot online sh lh)"
  by (simp add: boot_def constructed_def Hardware_begin_def AlarmController_begin_def
      checkBuzzerCircuits_def setupPWM_def digitalWrite_def ledcWrite_def Let_def
      inactive_silent_def AlarmController_init_def Hardware_init_def)

lemma step_silent: "inactive_silent w \<Longrightarrow> inactive_silent (step p w)"
proof (cases p)
  case (Pair now c)
  assume inv: "inactive_silent w"
  show ?thesis
  proof (cases c)
    case Start
    then show ?thesis using Pair by (simp add: start_silent)
  next
    case (Stop x)
    then show ?thesis using Pair inv by (simp add: stop_silent)
  next
    case Update
    then show ?thesis using Pair inv by (simp add: update_silent)
  next
    case TestAlarm
    then show ?thesis using Pair inv by (simp add: testAlarm_silent)
  next
    case Reset
    then show ?thesis using Pair by (simp add: reset_silent)
  qed (use Pair inv in \<open>simp_all add: inactive_silent_def isActive_def
        setTelegramNotificationsEnabled_def setHardwareChecksEnabled_def\<close>)
qed

lemma run_silent: "inactive_silent w \<Longrightarrow> inactive_silent (run steps w)"
  unfolding run_def by (induction steps arbitrary: w) (simp_all add: step_silent)

lemma transitionToState_stopped_trace:
  "currentState (ctrl w) \<noteq> stoppedState x \<Longrightarrow>
   trace (transitionToState now (stoppedState x) w) =
     trace w @ [Transition (currentState (ctrl w)) (stoppedState x)]"
  by (cases x) (simp_all add: transitionToState_def Let_def)

lemma transitionToState_idle_trace:
  "currentState (ctrl w) \<noteq> ALARM_IDLE \<Longrightarrow>
   trace (transitionToState now ALARM_IDLE w) =
     trace w @ [Transition (currentState (ctrl w)) ALARM_IDLE,
                LedcWrite BUZZER_PWM_CHANNEL_SMALL 0, LedcWrite BUZZER_PWM_CHANNEL_LARGE 0]
             @ (if ledsEnabled (state (hw w)) then [DigitalWrite PIN_LED_ALARM False] else [])"
  by (simp add: transitionToState_def Let_def setAlarmLED_def digitalWrite_def)

lemma stop_notified_trace:
  "trace (stop_notified now x w) =
     trace w @ [LedcWrite BUZZER_PWM_CHANNEL_SMALL 0, LedcWrite BUZZER_PWM_CHANNEL_LARGE 0,
                StatsComputed x] @ stop_message now x w"
  by (cases x)
     (simp_all add: stop_notified_def Let_def sendTelegramNotification_trace notify_effects_def
        sessionStatistics_def)

lemma stop_trace:
  "isActive (ctrl w) \<Longrightarrow>
   trace (snd (stop now x w)) =
     trace w @ [LedcWrite BUZZER_PWM_CHANNEL_SMALL 0, LedcWrite BUZZER_PWM_CHANNEL_LARGE 0,
                StatsComputed x] @ stop_message now x w
       @ [Transition (currentState (ctrl w)) (stoppedState x),
          Transition (stoppedState x) ALARM_IDLE,
          LedcWrite BUZZER_PWM_CHANNEL_SMALL 0, LedcWrite BUZZER_PWM_CHANNEL_LARGE 0]
       @ (if ledsEnabled (state (hw w)) then [DigitalWrite PIN_LED_ALARM False] else [])"
  using active_neq [of "ctrl w" x]
  by (simp add: stop_active transitionToState_idle_trace transitionToState_stopped_trace
      transitionToState_ctrl stop_notified_trace)

lemma transitions_of_append [simp]:
  "transitions_of (xs @ ys) = transitions_of xs @ transitions_of ys"
  by (induction xs rule: transitions_of.induct) simp_all

lemma notifications_of_append [simp]:
  "notifications_of (xs @ ys) = notifications_of xs @ notifications_of ys"
  by (induction xs rule: notifications_of.induct) simp_all

lemma messages_sent_append [simp]:
  "messages_sent (xs @ ys) = messages_sent xs @ messages_sent ys"
  by (induction xs rule: messages_sent.induct) simp_all

lemma stop_message_transitions [simp]: "transitions_of (stop_message now x w) = []"
  by (cases x) (simp_all add: notify_effects_def)

lemma stop_effects:
  "isActive (ctrl w) \<Longrightarrow>
   effects_of w (snd (stop now x w)) =
     [LedcWrite BUZZER_PWM_CHANNEL_SMALL 0, LedcWrite BUZZER_PWM_CHANNEL_LARGE 0,
      StatsComputed x] @ stop_message now x w
       @ [Transition (currentState (ctrl w)) (stoppedState x),
          Transition (stoppedState x) ALARM_IDLE,
          LedcWrite BUZZER_PWM_CHANNEL_SMALL 0, LedcWrite BUZZER_PWM_CHANNEL_LARGE 0]
       @ (if ledsEnabled (state (hw w)) then [DigitalWrite PIN_LED_ALARM False] else [])"
  by (simp add: effects_of_def stop_trace)

lemma start_makes_active: "isActive (ctrl (snd (start now w)))"
  by (cases "isActive (ctrl w)") (simp_all add: start_active start_inactive_ctrl isActive_def)

lemma run_not_stopped:
  "\<not> isActive (ctrl (run steps (boot online sh lh))) \<Longrightarrow>
   currentState (ctrl (run steps (boot online sh lh))) = ALARM_IDLE"
  using run_silent [OF boot_silent, of steps online sh lh] by (simp add: inactive_silent_def)







lemma debounceButton_same:
  "r = lastReading b \<Longrightarrow> t - lastChange b \<le> 50 \<Longrightarrow> debounceButton t r b = (stableState b, b)"
  by (simp add: debounceButton_def Let_def not_less [symmetric])

lemma debounceButton_change:
  "r \<noteq> lastReading b \<Longrightarrow>
   debounceButton t r b = (stableState b, b\<lparr>lastChange := t, lastReading := r\<rparr>)"
  by (simp add: debounceButton_def Let_def)

lemma chatter_stable:
  "chatter (lastReading b) (lastChange b) ps \<Longrightarrow>
   stable_changes b ps = 0 \<and> stableState (debounce_run b ps) = stableState b"
proof (induction ps arbitrary: b)
  case Nil
  then show ?case by simp
next
  case (Cons p ps)
  obtain t r where p: "p = (t, r)" by (cases p)
  show ?case
  proof (cases "r = lastReading b")
    case True
    with Cons.prems p have le: "t - lastChange b \<le> 50"
      and rest: "chatter (lastReading b) (lastChange b) ps" by simp_all
    from Cons.IH [OF rest] show ?thesis
      using p True le by (simp add: debounceButton_same)
  next
    case False
    with Cons.prems p have rest: "chatter r t ps" by simp
    then have "chatter (lastReading (b\<lparr>lastChange := t, lastReading := r\<rparr>))
                 (lastChange (b\<lparr>lastChange := t, lastReading := r\<rparr>)) ps" by simp
    from Cons.IH [OF this] show ?thesis
      using p False by (simp add: debounceButton_change)
  qed
qed

lemma held_settled:
  "lastReading b = r \<Longrightarrow> stableState b = r \<Longrightarrow>
   stable_changes b (map (\<lambda>t. (t, r)) ts) = 0
   \<and> stableState (debounce_run b (map (\<lambda>t. (t, r)) ts)) = r"
proof (induction ts arbitrary: b)
  case Nil
  then show ?case by simp
next
  case (Cons t ts)
  have "debounceButton t r b = (stableState b, b)"
    using Cons.prems by (simp add: debounceButton_def Let_def)
  with Cons show ?case by simp
qed

lemma held_unsettled:
  "lastReading b = r \<Longrightarrow> stableState b \<noteq> r \<Longrightarrow>
   stable_changes b (map (\<lambda>t. (t, r)) ts) =
     (if \<exists>t\<in>set ts. BUTTON_DEBOUNCE_MS < t - lastChange b then 1 else 0)
   \<and> stableState (debounce_run b (map (\<lambda>t. (t, r)) ts)) =
     (if \<exists>t\<in>set ts. BUTTON_DEBOUNCE_MS < t - lastChange b then r else stableState b)"
proof (induction ts arbitrary: b)
  case Nil
  then show ?case by simp
next
  case (Cons t ts)
  show ?case
  proof (cases "BUTTON_DEBOUNCE_MS < t - lastChange b")
    case True
    then have step: "debounceButton t r b = (r, b\<lparr>stableState := r\<rparr>)"
      using Cons.prems by (simp add: debounceButton_def Let_def)
    have "stable_changes (b\<lparr>stableState := r\<rparr>) (map (\<lambda>t. (t, r)) ts) = 0
      \<and> stableState (debounce_run (b\<lparr>stableState := r\<rparr>) (map (\<lambda>t. (t, r)) ts)) = r"
      by (rule held_settled) (use Cons.prems in simp_all)
    with step True Cons.prems show ?thesis by simp
  next
    case False
    then have step: "debounceButton t r b = (stableState b, b)"
      using Cons.prems by (simp add: debounceButton_def Let_def)
    from Cons.IH [OF Cons.prems] step False show ?thesis by simp
  qed
qed

lemma poll_run_snoc:
  "poll_run h (ps @ [(t, a, b, c)]) = updateButtons t a b c (poll_run h ps)"
  by (simp add: poll_run_def)

lemma updateButtons_pressTime:
  "resetButtonPressTime (state (updateButtons t a b c h)) =
     (if buttonReset (state (updateButtons t a b c h))
      then (if resetButtonPressTime (state h) = 0 then t else resetButtonPressTime (state h))
      else 0)"
  by (simp add: updateButtons_def Let_def split_beta)

lemma updateButtons_buttonReset:
  "buttonReset (state (updateButtons t a b c h)) = fst (debounceButton t c (resetButton h))"
  by (simp add: updateButtons_def Let_def split_beta)

lemma press_start:
  "resetButtonPressTime (state h) = 0 \<Longrightarrow>
   resetButtonPressTime (state (poll_run h ps)) \<noteq> 0 \<Longrightarrow>
   \<exists>pre p post. ps = pre @ p # post
      \<and> (\<forall>k \<le> length post. buttonReset (state (poll_run h (pre @ p # take k post))))
      \<and> resetButtonPressTime (state (poll_run h ps)) = fst p"
proof (induction ps rule: rev_induct)
  case Nil
  then show ?case by (simp add: poll_run_def)
next
  case (snoc q ps)
  obtain t a b c where q: "q = (t, a, b, c)" by (cases q)
  let ?h1 = "poll_run h ps"
  let ?h2 = "poll_run h (ps @ [q])"
  have h2: "?h2 = updateButtons t a b c ?h1" by (simp add: q poll_run_snoc)
  from snoc.prems(2) have pressed: "buttonReset (state ?h2)"
    unfolding h2 by (subst (asm) updateButtons_pressTime) (simp split: if_splits)
  show ?case
  proof (cases "resetButtonPressTime (state ?h1) = 0")
    case True
    then have "resetButtonPressTime (state ?h2) = t"
      unfolding h2 using pressed [unfolded h2] by (subst updateButtons_pressTime) simp
    with pressed q have "ps @ [q] = ps @ q # []
      \<and> (\<forall>k \<le> length ([] :: (u32 \<times> bool \<times> bool \<times> bool) list).
            buttonReset (state (poll_run h (ps @ q # take k []))))
      \<and> resetButtonPressTime (state ?h2) = fst q"
      by simp
    then show ?thesis by blast
  next
    case False
    from snoc.IH [OF snoc.prems(1) False] obtain pre p post where
      ps: "ps = pre @ p # post"
      and all: "\<forall>k \<le> length post. buttonReset (state (poll_run h (pre @ p # take k post)))"
      and st: "resetButtonPressTime (state ?h1) = fst p"
      by blast
    have keep: "resetButtonPressTime (state ?h2) = fst p"
      unfolding h2 using pressed [unfolded h2] False st
      by (subst updateButtons_pressTime) simp
    have "\<forall>k \<le> length (post @ [q]).
            buttonReset (state (poll_run h (pre @ p # take k (post @ [q]))))"
    proof (intro allI impI)
      fix k assume k: "k \<le> length (post @ [q])"
      show "buttonReset (state (poll_run h (pre @ p # take k (post @ [q]))))"
      proof (cases "k \<le> length post")
        case True
        with all show ?thesis by simp
      next
        case False
        with k have "take k (post @ [q]) = post @ [q]" by simp
        with pressed ps show ?thesis by simp
      qed
    qed
    with keep ps have "ps @ [q] = pre @ p # (post @ [q])
      \<and> (\<forall>k \<le> length (post @ [q]).
            buttonReset (state (poll_run h (pre @ p # take k (post @ [q])))))
      \<and> resetButtonPressTime (state ?h2) = fst p"
      by simp
    then show ?thesis by blast
  qed
qed

lemma checkHardwareHealth_fst:
  "fst (checkHardwareHealth w) = (\<not> relevant_failed (currentState (ctrl w)) (state (hw w)))"
  by (auto simp: checkHardwareHealth_def relevant_failed_def Let_def)

lemma checkHardwareHealth_ok:
  "\<not> relevant_failed (currentState (ctrl w)) (state (hw w)) \<Longrightarrow> checkHardwareHealth w = (True, w)"
  by (auto simp: checkHardwareHealth_def relevant_failed_def Let_def)

lemma checkHardwareHealth_active [simp]:
  "isActive (ctrl (snd (checkHardwareHealth w))) = isActive (ctrl w)"
  by (simp add: isActive_def)

lemma update_dispatch_keeps [simp]:
  "alarmStartTime (ctrl (update_dispatch now w)) = alarmStartTime (ctrl w)"
  "hardwareChecksEnabled (ctrl (update_dispatch now w)) = hardwareChecksEnabled (ctrl w)"
  "telegramNotificationsEnabled (ctrl (update_dispatch now w)) = telegramNotificationsEnabled (ctrl w)"
  "lastStatistics (ctrl (update_dispatch now w)) = lastStatistics (ctrl w)"
  by (simp_all add: update_dispatch_ctrl)

lemma update_hardware_fails:
  assumes "isActive (ctrl w)" "hardwareChecksEnabled (ctrl w)" "10000 \<le> now - lastCheck w"
    and "relevant_failed (currentState (ctrl w)) (state (hw w))"
  shows "update_hardware now w =
           snd (stop now STOP_HARDWARE_ERROR (snd (checkHardwareHealth (w\<lparr>lastCheck := now\<rparr>))))"
  using assms by (simp add: update_hardware_def Let_def split_beta checkHardwareHealth_fst)

lemma elapsed_le0:
  fixes c :: u32
  shows "k < 4294967296 \<Longrightarrow> (c \<le> of_nat k) = (unat c \<le> k)"
  by (simp add: word_le_nat_alt unat_of_nat)

lemma elapsed_le:
  fixes c d :: u32
  assumes "k < 4294967296" "unat d \<le> k"
  shows "(c \<le> of_nat k - d) = (unat c + unat d \<le> k)"
proof -
  have d: "d \<le> of_nat k" using assms by (simp add: word_le_nat_alt unat_of_nat)
  have "unat (of_nat k - d :: u32) = k - unat d"
    using assms by (simp add: unat_sub [OF d] unat_of_nat)
  then show ?thesis using assms by (simp add: word_le_nat_alt) arith
qed

lemma update_safety_ctrl:
  "ctrl (update_safety now w) =
     (if isActive (ctrl w) \<and> isSafetyTimeoutReached now (ctrl w)
      then (ctrl w)\<lparr>lastStatistics := sessionStatistics now STOP_SAFETY_TIMEOUT (ctrl w),
                    previousState := ALARM_STOPPED_TIMEOUT, currentState := ALARM_IDLE,
                    stageStartTime := now\<rparr>
      else ctrl w)"
  by (simp add: update_safety_def stop_active_ctrl)

lemma update_safety_frame [simp]:
  "state (hw (update_safety now w)) = state (hw w)"
  "hardwareChecksEnabled (ctrl (update_safety now w)) = hardwareChecksEnabled (ctrl w)"
  by (simp_all add: update_safety_def stop_active_ctrl)

lemma update_hardware_healthy:
  "healthy w \<Longrightarrow> ctrl (update_hardware now w) = ctrl w"
  by (auto simp: update_hardware_def healthy_def Let_def checkHardwareHealth_ok
      relevant_failed_def)

lemma update_hardware_frame [simp]:
  "state (hw (update_hardware now w)) = state (hw w)"
  by (simp add: update_hardware_def Let_def split_beta)

lemma healthy_dispatch_safety:
  "healthy w \<Longrightarrow> healthy (update_safety now (update_dispatch now w))"
  by (simp add: healthy_def)

lemma update_ctrl_healthy:
  "healthy w \<Longrightarrow> ctrl (update now w) = ctrl (update_safety now (update_dispatch now w))"
  unfolding update_def by (rule update_hardware_healthy) (rule healthy_dispatch_safety)

lemma update_healthy: "healthy w \<Longrightarrow> healthy (update now w)"
  using update_ctrl_healthy [of w now]
  by (simp add: healthy_def update_def)

lemmas phase_simps = update_ctrl_healthy update_safety_ctrl update_dispatch_ctrl
  isStageDurationExceeded_def isSafetyTimeoutReached_def getStateDuration_def isActive_def
  Let_def elapsed_le0 elapsed_le sessionStatistics_def

lemma update_phase_same:
  assumes "phase T k (ctrl w)" "healthy w"
  shows "phase T k (ctrl (update (T + of_nat k) w))"
proof -
  consider "k < 3000" | "3000 \<le> k" "k < 33000" | "33000 \<le> k" "k < 63000"
    | "63000 \<le> k" "k < 300000" | "300000 \<le> k" "T = 0" | "300000 \<le> k" "T \<noteq> 0"
    by linarith
  then show ?thesis
  proof cases
    case 1
    with assms show ?thesis by (simp add: phase_def phase_simps)
  next
    case 2
    with assms show ?thesis by (simp add: phase_def phase_simps)
  next
    case 3
    with assms show ?thesis by (simp add: phase_def phase_simps)
  next
    case 4
    with assms show ?thesis by (simp add: phase_def phase_simps)
  next
    case 5
    with assms show ?thesis by (simp add: phase_def phase_simps)
  next
    case 6
    with assms have "\<not> isActive (ctrl w)" by (simp add: phase_def isActive_def)
    with assms show ?thesis by (simp add: update_inactive)
  qed
qed

lemma update_phase_next:
  assumes "phase T (j - 1) (ctrl w)" "healthy w" "0 < j"
  shows "phase T j (ctrl (update (T + of_nat j) w))"
proof -
  consider "j < 3000" | "j = 3000" | "3000 < j" "j < 33000" | "j = 33000"
    | "33000 < j" "j < 63000" | "j = 63000" | "63000 < j" "j < 300000"
    | "300000 \<le> j" "T = 0" | "j = 300000" "T \<noteq> 0" | "300000 < j" "T \<noteq> 0"
    by linarith
  then show ?thesis
  proof cases
    case 1
    with assms show ?thesis by (simp add: phase_def phase_simps)
  next
    case 2
    with assms show ?thesis by (simp add: phase_def phase_simps)
  next
    case 3
    with assms show ?thesis by (simp add: phase_def phase_simps)
  next
    case 4
    with assms show ?thesis by (simp add: phase_def phase_simps)
  next
    case 5
    with assms show ?thesis by (simp add: phase_def phase_simps)
  next
    case 6
    with assms show ?thesis by (simp add: phase_def phase_simps)
  next
    case 7
    with assms show ?thesis by (simp add: phase_def phase_simps)
  next
    case 8
    with assms show ?thesis by (simp add: phase_def phase_simps)
  next
    case 9
    with assms show ?thesis by (simp add: phase_def phase_simps)
  next
    case 10
    with assms have "\<not> isActive (ctrl w)" by (simp add: phase_def isActive_def)
    with assms 10 show ?thesis by (simp add: update_inactive phase_def)
  qed
qed

lemma updates_phase:
  "phase T k (ctrl w) \<Longrightarrow> healthy w \<Longrightarrow>
   phase T k (ctrl (updates n (T + of_nat k) w)) \<and> healthy (updates n (T + of_nat k) w)"
proof (induction n arbitrary: w)
  case 0
  then show ?case by simp
next
  case (Suc n)
  from Suc.prems have "phase T k (ctrl (update (T + of_nat k) w))"
    and "healthy (update (T + of_nat k) w)"
    by (simp_all add: update_phase_same update_healthy)
  from Suc.IH [OF this] show ?case by simp
qed

lemma ticks_phase:
  "phase T k (ctrl w) \<Longrightarrow> healthy w \<Longrightarrow>
   phase T (k + length ns) (ctrl (ticks (T + of_nat k) ns w))"
proof (induction ns arbitrary: k w)
  case Nil
  then show ?case by simp
next
  case (Cons n ns)
  have t: "T + of_nat k + 1 = T + of_nat (Suc k)" by simp
  have 1: "phase T (Suc k) (ctrl (update (T + of_nat (Suc k)) w))"
    by (rule update_phase_next) (use Cons.prems in simp_all)
  have 2: "healthy (update (T + of_nat (Suc k)) w)"
    using Cons.prems by (simp only: update_healthy)
  from updates_phase [OF 1 2, of n]
  have "phase T (Suc k + length ns)
          (ctrl (ticks (T + of_nat (Suc k)) ns (updates n (T + of_nat (Suc k))
             (update (T + of_nat (Suc k)) w))))"
    by (intro Cons.IH) simp_all
  then show ?case by (simp only: ticks.simps updates.simps t) simp
qed

lemma start_phase:
  "\<not> isActive (ctrl w) \<Longrightarrow> phase T 0 (ctrl (snd (start T w)))"
  by (simp add: phase_def start_inactive_ctrl)

lemma start_healthy: "healthy w \<Longrightarrow> healthy (snd (start T w))"
  by (cases "isActive (ctrl w)") (simp_all add: healthy_def start_active start_inactive_ctrl)

lemma timeline:
  assumes "\<not> isActive (ctrl w)" "healthy w"
  shows "phase T (length ns) (ctrl (ticks T ns (updates n T (snd (start T w)))))"
proof -
  have "phase T 0 (ctrl (snd (start T w)))" using assms by (simp add: start_phase)
  moreover have "healthy (snd (start T w))" using assms by (simp add: start_healthy)
  ultimately have "phase T 0 (ctrl (updates n (T + of_nat 0) (snd (start T w))))"
    and "healthy (updates n (T + of_nat 0) (snd (start T w)))"
    using updates_phase [of T 0 "snd (start T w)" n] by simp_all
  from ticks_phase [OF this, of ns] show ?thesis by simp
qed

lemma updates_inactive: "\<not> isActive (ctrl w) \<Longrightarrow> updates n t w = w"
  by (induction n) (simp_all add: update_inactive)

lemma ticks_inactive: "\<not> isActive (ctrl w) \<Longrightarrow> ticks t ns w = w"
  by (induction ns arbitrary: t) (simp_all add: update_inactive updates_inactive)

lemma update_hardware_passes:
  "\<not> relevant_failed (currentState (ctrl w)) (state (hw w)) \<Longrightarrow>
   ctrl (update_hardware now w) = ctrl w"
  by (simp add: update_hardware_def Let_def checkHardwareHealth_ok)

lemma update_timeout_precedence:
  assumes act: "isActive (ctrl w)" and reached: "isSafetyTimeoutReached now (ctrl w)"
  shows "update now w = snd (stop now STOP_SAFETY_TIMEOUT (update_dispatch now w))"
    and "currentState (ctrl (update now w)) = ALARM_IDLE"
    and "previousState (ctrl (update now w)) = ALARM_STOPPED_TIMEOUT"
    and "stopSource (lastStatistics (ctrl (update now w))) = STOP_SAFETY_TIMEOUT"
    and "\<not> hardwareIssueDetected (lastStatistics (ctrl (update now w)))"
    and "lastHardwareError (ctrl (update now w)) = lastHardwareError (ctrl w)"
    and "lastCheck (update now w) = lastCheck w"
proof -
  let ?w1 = "update_dispatch now w"
  have act1: "isActive (ctrl ?w1)" using act by (rule update_dispatch_active)
  have "isSafetyTimeoutReached now (ctrl ?w1)"
    using reached by (simp add: isSafetyTimeoutReached_def Let_def split: if_splits)
  with act1 have saf: "update_safety now ?w1 = snd (stop now STOP_SAFETY_TIMEOUT ?w1)"
    by (simp add: update_safety_def)
  have "\<not> isActive (ctrl (snd (stop now STOP_SAFETY_TIMEOUT ?w1)))"
    using act1 by (simp add: stop_active_ctrl isActive_def)
  then show upd: "update now w = snd (stop now STOP_SAFETY_TIMEOUT ?w1)"
    by (simp add: update_def saf update_hardware_inactive)
  show "currentState (ctrl (update now w)) = ALARM_IDLE"
    and "previousState (ctrl (update now w)) = ALARM_STOPPED_TIMEOUT"
    and "stopSource (lastStatistics (ctrl (update now w))) = STOP_SAFETY_TIMEOUT"
    and "\<not> hardwareIssueDetected (lastStatistics (ctrl (update now w)))"
    and "lastHardwareError (ctrl (update now w)) = lastHardwareError (ctrl w)"
    and "lastCheck (update now w) = lastCheck w"
    unfolding upd using act1
    by (simp_all add: stop_active_ctrl sessionStatistics_def update_dispatch_ctrl)
qed

lemma update_escalated_unchecked:
  assumes alert: "currentState (ctrl w) = ALARM_ALERT"
    and exceeded: "isStageDurationExceeded now (ctrl w)"
    and nt: "\<not> isSafetyTimeoutReached now (ctrl w)"
    and large: "largeBuzzer (state (hw w)) \<noteq> HW_STATUS_FAILED"
  shows "currentState (ctrl (update now w)) = ALARM_EMERGENCY"
    and "previousState (ctrl (update now w)) = ALARM_ALERT"
    and "lastStatistics (ctrl (update now w)) = lastStatistics (ctrl w)"
proof -
  let ?w1 = "update_dispatch now w"
  have c1: "ctrl ?w1 = (ctrl w)\<lparr>previousState := ALARM_ALERT,
      currentState := ALARM_EMERGENCY, stageStartTime := now\<rparr>"
    using alert exceeded by (simp add: update_dispatch_ctrl)
  have "\<not> isSafetyTimeoutReached now (ctrl ?w1)"
    using nt by (simp add: isSafetyTimeoutReached_def Let_def split: if_splits)
  then have saf: "update_safety now ?w1 = ?w1" by (simp add: update_safety_def)
  have "\<not> relevant_failed (currentState (ctrl ?w1)) (state (hw ?w1))"
    using large by (simp add: c1 relevant_failed_def)
  then have "ctrl (update now w) = ctrl ?w1"
    unfolding update_def saf by (rule update_hardware_passes)
  then show "currentState (ctrl (update now w)) = ALARM_EMERGENCY"
    and "previousState (ctrl (update now w)) = ALARM_ALERT"
    and "lastStatistics (ctrl (update now w)) = lastStatistics (ctrl w)"
    by (simp_all add: c1)
qed

section \<open>The properties\<close>

subsection \<open>C1: the buzzers are silent whenever the alarm is not active\<close>

text \<open>
  Claim C1. In every world reached from the booted device by any sequence of steps
  (calls of \<^verbatim>\<open>start\<close>, \<^verbatim>\<open>stop\<close>, \<^verbatim>\<open>update\<close>, and the other steps of \<open>run\<close>), if the
  controller is not active then both PWM duty registers are 0. And every successful
  \<^verbatim>\<open>stop(x)\<close>, for every source \<open>x\<close>, writes duty 0 to the small and to the large buzzer
  as its first two logged effects; the statistics are computed right after, and every
  notification and transition comes later.
\<close>

theorem safety_invariant:
  "(\<not> isActive (ctrl (run steps (boot online sh lh))) \<longrightarrow>
      dutySmall (run steps (boot online sh lh)) = 0 \<and>
      dutyLarge (run steps (boot online sh lh)) = 0)
   \<and> (isActive (ctrl w) \<longrightarrow>
        fst (stop now x w) \<and>
        take 3 (effects_of w (snd (stop now x w))) =
          [LedcWrite BUZZER_PWM_CHANNEL_SMALL 0, LedcWrite BUZZER_PWM_CHANNEL_LARGE 0,
           StatsComputed x] \<and>
        dutySmall (snd (stop now x w)) = 0 \<and> dutyLarge (snd (stop now x w)) = 0)"
proof -
  have "inactive_silent (run steps (boot online sh lh))"
    by (rule run_silent [OF boot_silent])
  then have first: "\<not> isActive (ctrl (run steps (boot online sh lh))) \<longrightarrow>
      dutySmall (run steps (boot online sh lh)) = 0 \<and>
      dutyLarge (run steps (boot online sh lh)) = 0"
    by (simp add: inactive_silent_def)
  have second: "isActive (ctrl w) \<longrightarrow>
        fst (stop now x w) \<and>
        take 3 (effects_of w (snd (stop now x w))) =
          [LedcWrite BUZZER_PWM_CHANNEL_SMALL 0, LedcWrite BUZZER_PWM_CHANNEL_LARGE 0,
           StatsComputed x] \<and>
        dutySmall (snd (stop now x w)) = 0 \<and> dutyLarge (snd (stop now x w)) = 0"
    by (simp add: effects_of_def stop_trace stop_active_duty) (simp add: stop_active)
  from first second show ?thesis by blast
qed

theorem safety_invariant_witness:
  "\<not> isActive (ctrl (run [(1000, Start), (4000, Update), (5000, Stop STOP_SILENCE_BUTTON)]
                       (boot True True True)))
   \<and> dutySmall (run [(1000, Start), (4000, Update), (5000, Stop STOP_SILENCE_BUTTON)]
                  (boot True True True)) = 0
   \<and> dutyLarge (run [(1000, Start), (4000, Update), (5000, Stop STOP_SILENCE_BUTTON)]
                  (boot True True True)) = 0
   \<and> isActive (ctrl (run [(1000, Start), (4000, Update)] (boot True True True)))
   \<and> fst (stop 5000 STOP_SILENCE_BUTTON (run [(1000, Start), (4000, Update)] (boot True True True)))
   \<and> take 3 (effects_of (run [(1000, Start), (4000, Update)] (boot True True True))
               (snd (stop 5000 STOP_SILENCE_BUTTON
                      (run [(1000, Start), (4000, Update)] (boot True True True))))) =
       [LedcWrite BUZZER_PWM_CHANNEL_SMALL 0, LedcWrite BUZZER_PWM_CHANNEL_LARGE 0,
        StatsComputed STOP_SILENCE_BUTTON]"
proof -
  have a: "\<not> isActive (ctrl (run [(1000, Start), (4000, Update), (5000, Stop STOP_SILENCE_BUTTON)]
                       (boot True True True)))"
    by code_simp
  have b: "isActive (ctrl (run [(1000, Start), (4000, Update)] (boot True True True)))"
    by code_simp
  show ?thesis
    using a b
      safety_invariant [of "[(1000, Start), (4000, Update), (5000, Stop STOP_SILENCE_BUTTON)]"
        True True True "run [(1000, Start), (4000, Update)] (boot True True True)"
        5000 STOP_SILENCE_BUTTON]
    by blast
qed

subsection \<open>C2: a successful stop ends in Idle within the same call\<close>

text \<open>
  Claim C2. For every source \<open>x\<close> and every active state, \<^verbatim>\<open>stop(x)\<close> returns true and
  performs exactly two transitions in the call, into the matching stopped state and from
  there into Idle; when it returns the state is Idle, \<^verbatim>\<open>isActive()\<close> is false and a
  \<^verbatim>\<open>start()\<close> succeeds at once. \<^verbatim>\<open>start()\<close> followed by \<^verbatim>\<open>stop(x)\<close> leaves Idle from any world.
  No world reached by a run of calls from the booted device is in a stopped state, so no
  \<^verbatim>\<open>update()\<close> cycle ever observes one.
\<close>

theorem stop_returns_to_idle:
  "(isActive (ctrl w) \<longrightarrow>
      fst (stop now x w) \<and>
      transitions_of (effects_of w (snd (stop now x w))) =
        [(currentState (ctrl w), stoppedState x), (stoppedState x, ALARM_IDLE)] \<and>
      currentState (ctrl (snd (stop now x w))) = ALARM_IDLE \<and>
      \<not> isActive (ctrl (snd (stop now x w))) \<and>
      fst (start now' (snd (stop now x w))))
   \<and> currentState (ctrl (snd (stop t' x (snd (start t w0))))) = ALARM_IDLE
   \<and> \<not> isActive (ctrl (snd (stop t' x (snd (start t w0)))))
   \<and> currentState (ctrl (run steps (boot online sh lh))) \<notin>
        {ALARM_STOPPED_USER, ALARM_STOPPED_TIMEOUT, ALARM_STOPPED_ERROR}"
proof -
  have idle: "currentState (ctrl (snd (stop now x w))) = ALARM_IDLE" if "isActive (ctrl w)"
    for now x w
    using that by (simp add: stop_active_ctrl)
  have one: "isActive (ctrl w) \<longrightarrow>
      fst (stop now x w) \<and>
      transitions_of (effects_of w (snd (stop now x w))) =
        [(currentState (ctrl w), stoppedState x), (stoppedState x, ALARM_IDLE)] \<and>
      currentState (ctrl (snd (stop now x w))) = ALARM_IDLE \<and>
      \<not> isActive (ctrl (snd (stop now x w))) \<and>
      fst (start now' (snd (stop now x w)))"
    by (simp add: stop_effects idle isActive_def [of "ctrl (snd (stop now x w))"]
        start_inactive_ctrl) (simp add: stop_active)
  have two: "currentState (ctrl (snd (stop t' x (snd (start t w0))))) = ALARM_IDLE"
    by (rule idle [OF start_makes_active])
  have three: "currentState (ctrl (run steps (boot online sh lh))) \<notin>
        {ALARM_STOPPED_USER, ALARM_STOPPED_TIMEOUT, ALARM_STOPPED_ERROR}"
    using run_not_stopped [of steps online sh lh]
    by (auto simp: isActive_def)
  from one two three show ?thesis by (simp add: isActive_def)
qed

theorem stop_returns_to_idle_witness:
  "isActive (ctrl (run [(1000, Start), (4000, Update)] (boot True True True)))
   \<and> fst (stop 9000 STOP_COMPLETED (run [(1000, Start), (4000, Update)] (boot True True True)))
   \<and> transitions_of
        (effects_of (run [(1000, Start), (4000, Update)] (boot True True True))
           (snd (stop 9000 STOP_COMPLETED
                  (run [(1000, Start), (4000, Update)] (boot True True True))))) =
        [(ALARM_WARNING, ALARM_STOPPED_USER), (ALARM_STOPPED_USER, ALARM_IDLE)]
   \<and> currentState (ctrl (snd (stop 9000 STOP_COMPLETED
        (run [(1000, Start), (4000, Update)] (boot True True True))))) = ALARM_IDLE
   \<and> fst (start 9000 (snd (stop 9000 STOP_COMPLETED
        (run [(1000, Start), (4000, Update)] (boot True True True)))))"
proof -
  have a: "isActive (ctrl (run [(1000, Start), (4000, Update)] (boot True True True)))"
    by code_simp
  have b: "currentState (ctrl (run [(1000, Start), (4000, Update)] (boot True True True)))
             = ALARM_WARNING"
    by code_simp
  show ?thesis
    using a b
      stop_returns_to_idle [where w = "run [(1000, Start), (4000, Update)] (boot True True True)"
        and now = 9000 and x = STOP_COMPLETED and now' = 9000]
    by simp
qed

subsection \<open>C4: calls in an invalid state are rejected without effect\<close>

text \<open>
  Claim C4. \<^verbatim>\<open>start()\<close> in a world reached by a run from the booted device whose state is
  not Idle, \<^verbatim>\<open>start()\<close> and \<^verbatim>\<open>testAlarm()\<close> in any active world, and \<^verbatim>\<open>stop(x)\<close> in Idle or in a
  stopped state, all return false and leave the whole world as it was (controller,
  hardware, outputs and log). In particular \<^verbatim>\<open>stop(x)\<close> in Idle leaves the state Idle and
  the statistics of the last session unchanged.
\<close>

theorem invalid_calls_rejected:
  "(currentState (ctrl (run steps (boot online sh lh))) \<noteq> ALARM_IDLE \<longrightarrow>
      start now (run steps (boot online sh lh)) = (False, run steps (boot online sh lh)))
   \<and> (isActive (ctrl w) \<longrightarrow> start now w = (False, w) \<and> testAlarm w = (False, w))
   \<and> (currentState (ctrl v) \<in>
         {ALARM_IDLE, ALARM_STOPPED_USER, ALARM_STOPPED_TIMEOUT, ALARM_STOPPED_ERROR} \<longrightarrow>
        stop now x v = (False, v))
   \<and> (currentState (ctrl v) = ALARM_IDLE \<longrightarrow>
        \<not> fst (stop now x v) \<and>
        currentState (ctrl (snd (stop now x v))) = ALARM_IDLE \<and>
        lastStatistics (ctrl (snd (stop now x v))) = lastStatistics (ctrl v))"
proof -
  have one: "currentState (ctrl (run steps (boot online sh lh))) \<noteq> ALARM_IDLE \<longrightarrow>
      start now (run steps (boot online sh lh)) = (False, run steps (boot online sh lh))"
    using run_not_stopped [of steps online sh lh] by (auto intro: start_active)
  have two: "isActive (ctrl w) \<longrightarrow> start now w = (False, w) \<and> testAlarm w = (False, w)"
    by (simp add: start_active testAlarm_active)
  have three: "currentState (ctrl v) \<in>
         {ALARM_IDLE, ALARM_STOPPED_USER, ALARM_STOPPED_TIMEOUT, ALARM_STOPPED_ERROR} \<longrightarrow>
        stop now x v = (False, v)"
    by (auto intro!: stop_inactive simp: isActive_def)
  from three have four: "currentState (ctrl v) = ALARM_IDLE \<longrightarrow>
        \<not> fst (stop now x v) \<and>
        currentState (ctrl (snd (stop now x v))) = ALARM_IDLE \<and>
        lastStatistics (ctrl (snd (stop now x v))) = lastStatistics (ctrl v)"
    by simp
  from one two three four show ?thesis by blast
qed

theorem invalid_calls_rejected_witness:
  "currentState (ctrl (run [(1000, Start)] (boot True True True))) \<noteq> ALARM_IDLE
   \<and> start 2000 (run [(1000, Start)] (boot True True True)) =
       (False, run [(1000, Start)] (boot True True True))
   \<and> isActive (ctrl (run [(1000, Start)] (boot True True True)))
   \<and> testAlarm (run [(1000, Start)] (boot True True True)) =
       (False, run [(1000, Start)] (boot True True True))
   \<and> currentState (ctrl (boot True True True)) = ALARM_IDLE
   \<and> stop 2000 STOP_SILENCE_BUTTON (boot True True True) = (False, boot True True True)
   \<and> lastStatistics (ctrl (snd (stop 2000 STOP_SILENCE_BUTTON (boot True True True)))) =
       lastStatistics (ctrl (boot True True True))"
proof -
  have a: "currentState (ctrl (run [(1000, Start)] (boot True True True))) \<noteq> ALARM_IDLE"
    by code_simp
  have b: "isActive (ctrl (run [(1000, Start)] (boot True True True)))"
    by code_simp
  have c: "currentState (ctrl (boot True True True)) = ALARM_IDLE"
    by code_simp
  show ?thesis
    using a b c
      invalid_calls_rejected [where steps = "[(1000, Start)]" and online = True and sh = True
        and lh = True and now = 2000 and w = "run [(1000, Start)] (boot True True True)"
        and v = "boot True True True" and x = STOP_SILENCE_BUTTON]
    by simp
qed

subsection \<open>C5: the statistics of a completed session\<close>



subsection \<open>C10: the sources that stop through the user state\<close>

text \<open>
  Claim C10. For every source other than the safety timeout and the hardware error
  (the sources None and Completed among them) a successful \<^verbatim>\<open>stop\<close> goes through
  \<open>ALARM_STOPPED_USER\<close> and then Idle, and emits exactly one notification, the
  "alarm stopped" message with the session's duration and the label Telegram for the
  Telegram command, Button for the silence button and Unknown otherwise; the message
  reaches the bot when notifications are enabled and the bot is online. Every source goes
  through one of the three stopped states: the timeout through \<open>ALARM_STOPPED_TIMEOUT\<close>,
  the hardware error through \<open>ALARM_STOPPED_ERROR\<close>, every other one through
  \<open>ALARM_STOPPED_USER\<close>.
\<close>

theorem user_stop_notification:
  "(isActive (ctrl w) \<and> x \<noteq> STOP_SAFETY_TIMEOUT \<and> x \<noteq> STOP_HARDWARE_ERROR \<longrightarrow>
      transitions_of (effects_of w (snd (stop now x w))) =
        [(currentState (ctrl w), ALARM_STOPPED_USER), (ALARM_STOPPED_USER, ALARM_IDLE)] \<and>
      previousState (ctrl (snd (stop now x w))) = ALARM_STOPPED_USER \<and>
      notifications_of (effects_of w (snd (stop now x w))) =
        [MSG_ALARM_STOPPED ((now - alarmStartTime (ctrl w)) div 1000)
           (if x = STOP_TELEGRAM_COMMAND then ''Telegram''
            else if x = STOP_SILENCE_BUTTON then ''Button'' else ''Unknown'')] \<and>
      messages_sent (effects_of w (snd (stop now x w))) =
        (if telegramNotificationsEnabled (ctrl w) \<and> botOnline w
         then notifications_of (effects_of w (snd (stop now x w))) else []))
   \<and> (isActive (ctrl v) \<longrightarrow>
        previousState (ctrl (snd (stop now y v))) =
          (if y = STOP_SAFETY_TIMEOUT then ALARM_STOPPED_TIMEOUT
           else if y = STOP_HARDWARE_ERROR then ALARM_STOPPED_ERROR
           else ALARM_STOPPED_USER))"
proof -
  have one: "isActive (ctrl w) \<and> x \<noteq> STOP_SAFETY_TIMEOUT \<and> x \<noteq> STOP_HARDWARE_ERROR \<longrightarrow>
      transitions_of (effects_of w (snd (stop now x w))) =
        [(currentState (ctrl w), ALARM_STOPPED_USER), (ALARM_STOPPED_USER, ALARM_IDLE)] \<and>
      previousState (ctrl (snd (stop now x w))) = ALARM_STOPPED_USER \<and>
      notifications_of (effects_of w (snd (stop now x w))) =
        [MSG_ALARM_STOPPED ((now - alarmStartTime (ctrl w)) div 1000)
           (if x = STOP_TELEGRAM_COMMAND then ''Telegram''
            else if x = STOP_SILENCE_BUTTON then ''Button'' else ''Unknown'')] \<and>
      messages_sent (effects_of w (snd (stop now x w))) =
        (if telegramNotificationsEnabled (ctrl w) \<and> botOnline w
         then notifications_of (effects_of w (snd (stop now x w))) else [])"
    by (cases x) (simp_all add: stop_effects stop_active_ctrl notify_effects_def)
  have two: "isActive (ctrl v) \<longrightarrow>
        previousState (ctrl (snd (stop now y v))) =
          (if y = STOP_SAFETY_TIMEOUT then ALARM_STOPPED_TIMEOUT
           else if y = STOP_HARDWARE_ERROR then ALARM_STOPPED_ERROR
           else ALARM_STOPPED_USER)"
    by (cases y) (simp_all add: stop_active_ctrl)
  from one two show ?thesis by blast
qed

theorem user_stop_notification_witness:
  "isActive (ctrl (run [(1000, Start), (4000, Update)] (boot True True True)))
   \<and> STOP_COMPLETED \<noteq> STOP_SAFETY_TIMEOUT \<and> STOP_COMPLETED \<noteq> STOP_HARDWARE_ERROR
   \<and> previousState (ctrl (snd (stop 9000 STOP_COMPLETED
        (run [(1000, Start), (4000, Update)] (boot True True True))))) = ALARM_STOPPED_USER
   \<and> notifications_of
        (effects_of (run [(1000, Start), (4000, Update)] (boot True True True))
           (snd (stop 9000 STOP_COMPLETED
                  (run [(1000, Start), (4000, Update)] (boot True True True))))) =
        [MSG_ALARM_STOPPED 8 ''Unknown'']
   \<and> messages_sent
        (effects_of (run [(1000, Start), (4000, Update)] (boot True True True))
           (snd (stop 9000 STOP_COMPLETED
                  (run [(1000, Start), (4000, Update)] (boot True True True))))) =
        [MSG_ALARM_STOPPED 8 ''Unknown'']
   \<and> previousState (ctrl (snd (stop 9000 STOP_SAFETY_TIMEOUT
        (run [(1000, Start), (4000, Update)] (boot True True True))))) = ALARM_STOPPED_TIMEOUT"
proof -
  have a: "isActive (ctrl (run [(1000, Start), (4000, Update)] (boot True True True)))"
    by code_simp
  have b: "alarmStartTime (ctrl (run [(1000, Start), (4000, Update)] (boot True True True))) = 1000"
    by code_simp
  have c: "telegramNotificationsEnabled
             (ctrl (run [(1000, Start), (4000, Update)] (boot True True True)))
           \<and> botOnline (run [(1000, Start), (4000, Update)] (boot True True True))"
    by code_simp
  show ?thesis
    using a b c
      user_stop_notification [where w = "run [(1000, Start), (4000, Update)] (boot True True True)"
        and v = "run [(1000, Start), (4000, Update)] (boot True True True)"
        and now = 9000 and x = STOP_COMPLETED and y = STOP_SAFETY_TIMEOUT]
    by simp
qed

subsection \<open>C9: getDuration after the session has ended\<close>




subsection \<open>C7: debouncing\<close>

text \<open>
  Claim C7, as amended. A button's state is polled at a list of (clock reading, raw
  reading) samples; \<open>chatter r0 t0 ps\<close> says that every sample of \<open>ps\<close> lies at most the
  settle window (50 ms) after the first sample of its run of equal readings, the current
  run having reading \<open>r0\<close> and first sample \<open>t0\<close>: the raw value alternates faster than the
  window. Under chatter the debounced stable state never changes. A single raw change
  away from a settled state, first seen at \<open>t\<close> and then held at every later poll \<open>ts\<close>,
  changes the stable state exactly once if some poll comes more than 50 ms after \<open>t\<close>,
  and not at all otherwise.
\<close>

theorem debounce_settles:
  "(chatter (lastReading b) (lastChange b) ps \<longrightarrow>
      stable_changes b ps = 0 \<and> stableState (debounce_run b ps) = stableState b)
   \<and> (lastReading c = stableState c \<and> r \<noteq> stableState c \<longrightarrow>
        stable_changes c ((t, r) # map (\<lambda>t'. (t', r)) ts) =
          (if \<exists>t'\<in>set ts. BUTTON_DEBOUNCE_MS < t' - t then 1 else 0) \<and>
        stableState (debounce_run c ((t, r) # map (\<lambda>t'. (t', r)) ts)) =
          (if \<exists>t'\<in>set ts. BUTTON_DEBOUNCE_MS < t' - t then r else stableState c))"
proof -
  have one: "chatter (lastReading b) (lastChange b) ps \<longrightarrow>
      stable_changes b ps = 0 \<and> stableState (debounce_run b ps) = stableState b"
    using chatter_stable by blast
  have two: "stable_changes c ((t, r) # map (\<lambda>t'. (t', r)) ts) =
          (if \<exists>t'\<in>set ts. BUTTON_DEBOUNCE_MS < t' - t then 1 else 0) \<and>
        stableState (debounce_run c ((t, r) # map (\<lambda>t'. (t', r)) ts)) =
          (if \<exists>t'\<in>set ts. BUTTON_DEBOUNCE_MS < t' - t then r else stableState c)"
    if q: "lastReading c = stableState c" and ne: "r \<noteq> stableState c"
  proof -
    from q ne have step: "debounceButton t r c = (stableState c, c\<lparr>lastChange := t, lastReading := r\<rparr>)"
      by (simp add: debounceButton_change)
    have "lastReading (c\<lparr>lastChange := t, lastReading := r\<rparr>) = r"
      and "stableState (c\<lparr>lastChange := t, lastReading := r\<rparr>) \<noteq> r"
      using ne by simp_all
    from held_unsettled [OF this, of ts] step show ?thesis by simp
  qed
  from one two show ?thesis by blast
qed

theorem debounce_settles_witness:
  "chatter (lastReading \<lparr>lastReading = False, stableState = False, lastChange = 0\<rparr>)
     (lastChange \<lparr>lastReading = False, stableState = False, lastChange = 0\<rparr>)
     [(10, True), (30, True), (40, False), (80, False), (90, True)]
   \<and> stable_changes \<lparr>lastReading = False, stableState = False, lastChange = 0\<rparr>
        [(10, True), (30, True), (40, False), (80, False), (90, True)] = 0
   \<and> lastReading \<lparr>lastReading = False, stableState = False, lastChange = 0\<rparr>
        = stableState \<lparr>lastReading = False, stableState = False, lastChange = 0\<rparr>
   \<and> True \<noteq> stableState \<lparr>lastReading = False, stableState = False, lastChange = 0\<rparr>
   \<and> (\<exists>t'\<in>set [1050, 1051, 1100]. BUTTON_DEBOUNCE_MS < t' - 1000)
   \<and> stable_changes \<lparr>lastReading = False, stableState = False, lastChange = 0\<rparr>
        ((1000, True) # map (\<lambda>t'. (t', True)) [1050, 1051, 1100]) = 1
   \<and> stableState (debounce_run \<lparr>lastReading = False, stableState = False, lastChange = 0\<rparr>
        ((1000, True) # map (\<lambda>t'. (t', True)) [1050, 1051, 1100])) = True"
proof -
  note inst = debounce_settles [where b = "\<lparr>lastReading = False, stableState = False, lastChange = 0\<rparr>"
        and ps = "[(10, True), (30, True), (40, False), (80, False), (90, True)]"
        and c = "\<lparr>lastReading = False, stableState = False, lastChange = 0\<rparr>"
        and r = True and t = 1000 and ts = "[1050, 1051, 1100]"]
  have a: "chatter (lastReading \<lparr>lastReading = False, stableState = False, lastChange = 0\<rparr>)
     (lastChange \<lparr>lastReading = False, stableState = False, lastChange = 0\<rparr>)
     [(10, True), (30, True), (40, False), (80, False), (90, True)]"
    by simp
  have b: "\<exists>t'\<in>set [1050, 1051, 1100]. BUTTON_DEBOUNCE_MS < t' - (1000 :: u32)"
    by simp
  have c: "lastReading \<lparr>lastReading = False, stableState = False, lastChange = 0\<rparr>
        = stableState \<lparr>lastReading = False, stableState = False, lastChange = 0\<rparr>
      \<and> True \<noteq> stableState \<lparr>lastReading = False, stableState = False, lastChange = 0\<rparr>"
    by simp
  from inst a have p: "stable_changes \<lparr>lastReading = False, stableState = False, lastChange = 0\<rparr>
        [(10, True), (30, True), (40, False), (80, False), (90, True)] = 0"
    by blast
  from inst c have "stable_changes \<lparr>lastReading = False, stableState = False, lastChange = 0\<rparr>
        ((1000, True) # map (\<lambda>t'. (t', True)) [1050, 1051, 1100]) =
          (if \<exists>t'\<in>set [1050, 1051, 1100]. BUTTON_DEBOUNCE_MS < t' - 1000 then 1 else 0)
     \<and> stableState (debounce_run \<lparr>lastReading = False, stableState = False, lastChange = 0\<rparr>
        ((1000, True) # map (\<lambda>t'. (t', True)) [1050, 1051, 1100])) =
          (if \<exists>t'\<in>set [1050, 1051, 1100]. BUTTON_DEBOUNCE_MS < t' - 1000 then True
           else stableState \<lparr>lastReading = False, stableState = False, lastChange = 0\<rparr>)"
    by blast
  with b have q: "stable_changes \<lparr>lastReading = False, stableState = False, lastChange = 0\<rparr>
        ((1000, True) # map (\<lambda>t'. (t', True)) [1050, 1051, 1100]) = 1
     \<and> stableState (debounce_run \<lparr>lastReading = False, stableState = False, lastChange = 0\<rparr>
        ((1000, True) # map (\<lambda>t'. (t', True)) [1050, 1051, 1100])) = True"
    by (simp only: if_True)
  from a b c p q show ?thesis by blast
qed

text \<open>
  The claim as first stated, with a hold of at least the settle window, fails at the
  boundary: a press first seen at 1000 and still held at 1050 has been held for the
  whole window of 50 ms, and the stable state has not changed.
\<close>

theorem debounce_boundary_counterexample:
  "(1050 :: u32) - 1000 \<ge> BUTTON_DEBOUNCE_MS
   \<and> stable_changes \<lparr>lastReading = False, stableState = False, lastChange = 0\<rparr>
        [(1000, True), (1050, True)] = 0
   \<and> stableState (debounce_run \<lparr>lastReading = False, stableState = False, lastChange = 0\<rparr>
        [(1000, True), (1050, True)]) = False"
  by code_simp

subsection \<open>C8: the long hold of the reset button\<close>

text \<open>
  Claim C8. After a poll of the buttons the hold timestamp of the reset button is unset
  (0) whenever the debounced state is released, and then no factory reset is requested;
  while the state is pressed the timestamp is the time of this poll if it was unset and
  is left alone otherwise, so that only a release clears it and a new press starts from
  its own poll. Over any list of polls from a state with the timestamp unset,
  \<^verbatim>\<open>isFactoryResetRequested()\<close> is true only if there is a poll \<open>p\<close> such that the reset
  button is stably pressed after \<open>p\<close> and after every later poll, and at least 10000 ms
  (modulo \<open>2^32\<close>) lie between \<open>p\<close> and the clock reading: one unbroken press, with
  nothing carried over from earlier presses.
\<close>

theorem factory_reset_needs_unbroken_hold:
  "(\<not> buttonReset (state (updateButtons t a b c h)) \<longrightarrow>
      resetButtonPressTime (state (updateButtons t a b c h)) = 0
      \<and> \<not> isFactoryResetRequested now (updateButtons t a b c h))
   \<and> (buttonReset (state (updateButtons t a b c h)) \<longrightarrow>
        resetButtonPressTime (state (updateButtons t a b c h)) =
          (if resetButtonPressTime (state h) = 0 then t else resetButtonPressTime (state h)))
   \<and> (resetButtonPressTime (state g) = 0 \<and> isFactoryResetRequested now (poll_run g ps) \<longrightarrow>
        (\<exists>pre p post. ps = pre @ p # post
           \<and> (\<forall>k \<le> length post. buttonReset (state (poll_run g (pre @ p # take k post))))
           \<and> RESET_HOLD_TIME_MS \<le> now - fst p))"
proof -
  have one: "\<not> buttonReset (state (updateButtons t a b c h)) \<longrightarrow>
      resetButtonPressTime (state (updateButtons t a b c h)) = 0
      \<and> \<not> isFactoryResetRequested now (updateButtons t a b c h)"
    by (simp add: updateButtons_pressTime isFactoryResetRequested_def)
  have two: "buttonReset (state (updateButtons t a b c h)) \<longrightarrow>
        resetButtonPressTime (state (updateButtons t a b c h)) =
          (if resetButtonPressTime (state h) = 0 then t else resetButtonPressTime (state h))"
    by (subst updateButtons_pressTime) simp
  have three: "\<exists>pre p post. ps = pre @ p # post
           \<and> (\<forall>k \<le> length post. buttonReset (state (poll_run g (pre @ p # take k post))))
           \<and> RESET_HOLD_TIME_MS \<le> now - fst p"
    if z: "resetButtonPressTime (state g) = 0" and req: "isFactoryResetRequested now (poll_run g ps)"
  proof -
    from req have nz: "resetButtonPressTime (state (poll_run g ps)) \<noteq> 0"
      and hold: "RESET_HOLD_TIME_MS \<le> now - resetButtonPressTime (state (poll_run g ps))"
      by (simp_all add: isFactoryResetRequested_def Let_def split: if_splits)
    from press_start [OF z nz] hold show ?thesis by metis
  qed
  from one two three show ?thesis by blast
qed

theorem factory_reset_needs_unbroken_hold_witness:
  "\<not> buttonReset (state (updateButtons 5100 False False False
        (poll_run Hardware_init
           [(100, False, False, True), (200, False, False, True), (5000, False, False, False)])))
   \<and> resetButtonPressTime (state (updateButtons 5100 False False False
        (poll_run Hardware_init
           [(100, False, False, True), (200, False, False, True), (5000, False, False, False)])))
       = 0
   \<and> resetButtonPressTime (state Hardware_init) = 0
   \<and> isFactoryResetRequested 10200
        (poll_run Hardware_init
           [(100, False, False, True), (200, False, False, True), (5000, False, False, True)])
   \<and> (\<exists>pre p post.
         [(100, False, False, True), (200, False, False, True), (5000, False, False, True)]
           = pre @ p # post
         \<and> (\<forall>k \<le> length post.
               buttonReset (state (poll_run Hardware_init (pre @ p # take k post))))
         \<and> RESET_HOLD_TIME_MS \<le> 10200 - fst p)"
proof -
  note inst = factory_reset_needs_unbroken_hold [where t = 5100 and a = False and b = False
      and c = False
      and h = "poll_run Hardware_init
           [(100, False, False, True), (200, False, False, True), (5000, False, False, False)]"
      and g = Hardware_init and now = 10200
      and ps = "[(100, False, False, True), (200, False, False, True), (5000, False, False, True)]"]
  have a: "\<not> buttonReset (state (updateButtons 5100 False False False
        (poll_run Hardware_init
           [(100, False, False, True), (200, False, False, True), (5000, False, False, False)])))"
    by code_simp
  have b: "resetButtonPressTime (state Hardware_init) = 0"
    by code_simp
  have c: "isFactoryResetRequested 10200
        (poll_run Hardware_init
           [(100, False, False, True), (200, False, False, True), (5000, False, False, True)])"
    by code_simp
  from inst a b c show ?thesis by blast
qed

subsection \<open>C6: a failed buzzer stops the alarm at the next due health check\<close>

text \<open>
  Claim C6, as amended. \<open>relevant_failed s hs\<close> says that the buzzer relevant to stage
  \<open>s\<close> has health status Failed: the small buzzer in Warning and Alert, the large one in
  Emergency, or both buzzers in any state. Take an \<^verbatim>\<open>update()\<close> tick at which the alarm is
  active, the hardware checks are enabled, the rate-limited check is due (at least
  10000 ms, modulo \<open>2^32\<close>, since the last one) and the safety timeout is not reached. If
  the buzzer relevant to the stage that is current after the tick's stage dispatch has
  failed, the tick stops the alarm with the hardware error: the machine is Idle, it
  came through \<open>ALARM_STOPPED_ERROR\<close>, the hardware-issue flag is set, both buzzers are
  silent and the time of the check is recorded. At a tick where the check is not due, or
  the checks are disabled, no check runs: the tick is the stage dispatch and the safety
  timeout only. At a tick of an active alarm where the safety timeout is reached, the
  timeout takes precedence: the machine is Idle, it came through
  \<open>ALARM_STOPPED_TIMEOUT\<close> with the safety timeout as stop source and without the
  hardware-issue flag, and no check has run (the time of the last check is unchanged).
  And at a tick that escalates Alert to Emergency without reaching the timeout, with the
  large buzzer not failed, the alarm goes on in Emergency whatever the status of the
  small buzzer and whether or not the check is due.
\<close>

theorem hardware_failure_forces_stop:
  "(isActive (ctrl w) \<and> hardwareChecksEnabled (ctrl w) \<and> 10000 \<le> now - lastCheck w
      \<and> \<not> isSafetyTimeoutReached now (ctrl w)
      \<and> relevant_failed (currentState (ctrl (update_dispatch now w))) (state (hw w))
    \<longrightarrow> currentState (ctrl (update now w)) = ALARM_IDLE
      \<and> previousState (ctrl (update now w)) = ALARM_STOPPED_ERROR
      \<and> stopSource (lastStatistics (ctrl (update now w))) = STOP_HARDWARE_ERROR
      \<and> hardwareIssueDetected (lastStatistics (ctrl (update now w)))
      \<and> dutySmall (update now w) = 0 \<and> dutyLarge (update now w) = 0
      \<and> lastCheck (update now w) = now)
   \<and> (\<not> 10000 \<le> now - lastCheck v \<or> \<not> hardwareChecksEnabled (ctrl v)
      \<longrightarrow> update now v = update_safety now (update_dispatch now v))
   \<and> (isActive (ctrl u) \<and> isSafetyTimeoutReached now (ctrl u)
      \<longrightarrow> currentState (ctrl (update now u)) = ALARM_IDLE
        \<and> previousState (ctrl (update now u)) = ALARM_STOPPED_TIMEOUT
        \<and> stopSource (lastStatistics (ctrl (update now u))) = STOP_SAFETY_TIMEOUT
        \<and> \<not> hardwareIssueDetected (lastStatistics (ctrl (update now u)))
        \<and> lastCheck (update now u) = lastCheck u)
   \<and> (currentState (ctrl z) = ALARM_ALERT \<and> isStageDurationExceeded now (ctrl z)
        \<and> \<not> isSafetyTimeoutReached now (ctrl z)
        \<and> largeBuzzer (state (hw z)) \<noteq> HW_STATUS_FAILED
      \<longrightarrow> currentState (ctrl (update now z)) = ALARM_EMERGENCY)"
proof -
  have one: "currentState (ctrl (update now w)) = ALARM_IDLE
      \<and> previousState (ctrl (update now w)) = ALARM_STOPPED_ERROR
      \<and> stopSource (lastStatistics (ctrl (update now w))) = STOP_HARDWARE_ERROR
      \<and> hardwareIssueDetected (lastStatistics (ctrl (update now w)))
      \<and> dutySmall (update now w) = 0 \<and> dutyLarge (update now w) = 0
      \<and> lastCheck (update now w) = now"
    if act: "isActive (ctrl w)" and en: "hardwareChecksEnabled (ctrl w)"
      and due: "10000 \<le> now - lastCheck w"
      and nt: "\<not> isSafetyTimeoutReached now (ctrl w)"
      and rf: "relevant_failed (currentState (ctrl (update_dispatch now w))) (state (hw w))"
  proof -
    let ?w1 = "update_dispatch now w"
    let ?w2 = "snd (checkHardwareHealth (?w1\<lparr>lastCheck := now\<rparr>))"
    have act1: "isActive (ctrl ?w1)" using act by (rule update_dispatch_active)
    have "\<not> isSafetyTimeoutReached now (ctrl ?w1)"
      using nt by (simp add: isSafetyTimeoutReached_def Let_def split: if_splits)
    then have saf: "update_safety now ?w1 = ?w1" by (simp add: update_safety_def)
    have upd: "update now w = snd (stop now STOP_HARDWARE_ERROR ?w2)"
      unfolding update_def saf
      by (rule update_hardware_fails) (use act1 en due rf in simp_all)
    have act2: "isActive (ctrl ?w2)" using act1 by simp
    show ?thesis
      unfolding upd using act2
      by (simp add: stop_active_ctrl stop_active_duty sessionStatistics_def)
  qed
  have two: "\<not> 10000 \<le> now - lastCheck v \<or> \<not> hardwareChecksEnabled (ctrl v)
      \<longrightarrow> update now v = update_safety now (update_dispatch now v)"
  proof (cases "isActive (ctrl v)")
    case True
    then have a: "isActive (ctrl (update_dispatch now v))" by (rule update_dispatch_active)
    show ?thesis
    proof (cases "isSafetyTimeoutReached now (ctrl (update_dispatch now v))")
      case True
      with a have "\<not> isActive (ctrl (update_safety now (update_dispatch now v)))"
        by (simp add: update_safety_def stop_active_ctrl isActive_def)
      then show ?thesis by (simp add: update_def update_hardware_inactive)
    next
      case False
      then have "update_safety now (update_dispatch now v) = update_dispatch now v"
        by (simp add: update_safety_def)
      then show ?thesis by (auto simp: update_def update_hardware_def)
    qed
  next
    case False
    then show ?thesis
      by (simp add: update_def update_dispatch_inactive update_safety_inactive
          update_hardware_inactive)
  qed
  have three: "isActive (ctrl u) \<and> isSafetyTimeoutReached now (ctrl u)
      \<longrightarrow> currentState (ctrl (update now u)) = ALARM_IDLE
        \<and> previousState (ctrl (update now u)) = ALARM_STOPPED_TIMEOUT
        \<and> stopSource (lastStatistics (ctrl (update now u))) = STOP_SAFETY_TIMEOUT
        \<and> \<not> hardwareIssueDetected (lastStatistics (ctrl (update now u)))
        \<and> lastCheck (update now u) = lastCheck u"
    using update_timeout_precedence [of u now] by blast
  have four: "currentState (ctrl z) = ALARM_ALERT \<and> isStageDurationExceeded now (ctrl z)
        \<and> \<not> isSafetyTimeoutReached now (ctrl z)
        \<and> largeBuzzer (state (hw z)) \<noteq> HW_STATUS_FAILED
      \<longrightarrow> currentState (ctrl (update now z)) = ALARM_EMERGENCY"
    using update_escalated_unchecked [of z now] by blast
  from one two three four show ?thesis by blast
qed

theorem hardware_failure_forces_stop_witness:
  "isActive (ctrl (run [(1000, Start), (4000, Update), (34000, Update),
          (40000, ForceHealth HW_STATUS_FAILED HW_STATUS_OK)] (boot True True True)))
   \<and> hardwareChecksEnabled (ctrl (run [(1000, Start), (4000, Update), (34000, Update),
          (40000, ForceHealth HW_STATUS_FAILED HW_STATUS_OK)] (boot True True True)))
   \<and> 10000 \<le> 44000 - lastCheck (run [(1000, Start), (4000, Update), (34000, Update),
          (40000, ForceHealth HW_STATUS_FAILED HW_STATUS_OK)] (boot True True True))
   \<and> \<not> isSafetyTimeoutReached 44000 (ctrl (run [(1000, Start), (4000, Update),
          (34000, Update), (40000, ForceHealth HW_STATUS_FAILED HW_STATUS_OK)]
          (boot True True True)))
   \<and> relevant_failed
        (currentState (ctrl (update_dispatch 44000 (run [(1000, Start), (4000, Update),
          (34000, Update), (40000, ForceHealth HW_STATUS_FAILED HW_STATUS_OK)]
          (boot True True True)))))
        (state (hw (run [(1000, Start), (4000, Update), (34000, Update),
          (40000, ForceHealth HW_STATUS_FAILED HW_STATUS_OK)] (boot True True True))))
   \<and> currentState (ctrl (update 44000 (run [(1000, Start), (4000, Update), (34000, Update),
          (40000, ForceHealth HW_STATUS_FAILED HW_STATUS_OK)] (boot True True True))))
        = ALARM_IDLE
   \<and> previousState (ctrl (update 44000 (run [(1000, Start), (4000, Update), (34000, Update),
          (40000, ForceHealth HW_STATUS_FAILED HW_STATUS_OK)] (boot True True True))))
        = ALARM_STOPPED_ERROR
   \<and> hardwareIssueDetected (lastStatistics (ctrl (update 44000 (run [(1000, Start),
          (4000, Update), (34000, Update), (40000, ForceHealth HW_STATUS_FAILED HW_STATUS_OK)]
          (boot True True True)))))
   \<and> \<not> 10000 \<le> 4000 - lastCheck (snd (start 1000 (boot True True True)))
   \<and> update 4000 (snd (start 1000 (boot True True True))) =
        update_safety 4000 (update_dispatch 4000 (snd (start 1000 (boot True True True))))
   \<and> isActive (ctrl (snd (start 1 (boot True False False))))
   \<and> isSafetyTimeoutReached 300001 (ctrl (snd (start 1 (boot True False False))))
   \<and> previousState (ctrl (update 300001 (snd (start 1 (boot True False False)))))
        = ALARM_STOPPED_TIMEOUT
   \<and> lastCheck (update 300001 (snd (start 1 (boot True False False))))
        = lastCheck (snd (start 1 (boot True False False)))
   \<and> currentState (ctrl (run [(1000, Start), (4000, Update), (34000, Update),
          (40000, ForceHealth HW_STATUS_FAILED HW_STATUS_OK)] (boot True True True))) = ALARM_ALERT
   \<and> isStageDurationExceeded 64000 (ctrl (run [(1000, Start), (4000, Update), (34000, Update),
          (40000, ForceHealth HW_STATUS_FAILED HW_STATUS_OK)] (boot True True True)))
   \<and> smallBuzzer (state (hw (run [(1000, Start), (4000, Update), (34000, Update),
          (40000, ForceHealth HW_STATUS_FAILED HW_STATUS_OK)] (boot True True True)))) = HW_STATUS_FAILED
   \<and> largeBuzzer (state (hw (run [(1000, Start), (4000, Update), (34000, Update),
          (40000, ForceHealth HW_STATUS_FAILED HW_STATUS_OK)] (boot True True True)))) = HW_STATUS_OK
   \<and> currentState (ctrl (update 64000 (run [(1000, Start), (4000, Update), (34000, Update),
          (40000, ForceHealth HW_STATUS_FAILED HW_STATUS_OK)] (boot True True True)))) = ALARM_EMERGENCY"
proof -
  note due = hardware_failure_forces_stop [where now = 44000
      and w = "run [(1000, Start), (4000, Update), (34000, Update),
          (40000, ForceHealth HW_STATUS_FAILED HW_STATUS_OK)] (boot True True True)", THEN conjunct1]
  note not_due = hardware_failure_forces_stop [where now = 4000
      and v = "snd (start 1000 (boot True True True))", THEN conjunct2, THEN conjunct1]
  note timeout = hardware_failure_forces_stop [where now = 300001
      and u = "snd (start 1 (boot True False False))",
      THEN conjunct2, THEN conjunct2, THEN conjunct1]
  note escalated = hardware_failure_forces_stop [where now = 64000
      and z = "run [(1000, Start), (4000, Update), (34000, Update),
          (40000, ForceHealth HW_STATUS_FAILED HW_STATUS_OK)] (boot True True True)",
      THEN conjunct2, THEN conjunct2, THEN conjunct2]
  have a: "isActive (ctrl (run [(1000, Start), (4000, Update), (34000, Update),
          (40000, ForceHealth HW_STATUS_FAILED HW_STATUS_OK)] (boot True True True)))
   \<and> hardwareChecksEnabled (ctrl (run [(1000, Start), (4000, Update), (34000, Update),
          (40000, ForceHealth HW_STATUS_FAILED HW_STATUS_OK)] (boot True True True)))
   \<and> 10000 \<le> 44000 - lastCheck (run [(1000, Start), (4000, Update), (34000, Update),
          (40000, ForceHealth HW_STATUS_FAILED HW_STATUS_OK)] (boot True True True))
   \<and> \<not> isSafetyTimeoutReached 44000 (ctrl (run [(1000, Start), (4000, Update), (34000, Update),
          (40000, ForceHealth HW_STATUS_FAILED HW_STATUS_OK)] (boot True True True)))
   \<and> relevant_failed
        (currentState (ctrl (update_dispatch 44000 (run [(1000, Start), (4000, Update), (34000, Update),
          (40000, ForceHealth HW_STATUS_FAILED HW_STATUS_OK)] (boot True True True)))))
        (state (hw (run [(1000, Start), (4000, Update), (34000, Update),
          (40000, ForceHealth HW_STATUS_FAILED HW_STATUS_OK)] (boot True True True))))"
    by code_simp
  have b: "\<not> 10000 \<le> 4000 - lastCheck (snd (start 1000 (boot True True True)))"
    by code_simp
  have c: "isActive (ctrl (snd (start 1 (boot True False False))))
   \<and> isSafetyTimeoutReached 300001 (ctrl (snd (start 1 (boot True False False))))"
    by code_simp
  have d: "currentState (ctrl (run [(1000, Start), (4000, Update), (34000, Update),
          (40000, ForceHealth HW_STATUS_FAILED HW_STATUS_OK)] (boot True True True))) = ALARM_ALERT
   \<and> isStageDurationExceeded 64000 (ctrl (run [(1000, Start), (4000, Update), (34000, Update),
          (40000, ForceHealth HW_STATUS_FAILED HW_STATUS_OK)] (boot True True True)))
   \<and> \<not> isSafetyTimeoutReached 64000 (ctrl (run [(1000, Start), (4000, Update), (34000, Update),
          (40000, ForceHealth HW_STATUS_FAILED HW_STATUS_OK)] (boot True True True)))
   \<and> smallBuzzer (state (hw (run [(1000, Start), (4000, Update), (34000, Update),
          (40000, ForceHealth HW_STATUS_FAILED HW_STATUS_OK)] (boot True True True)))) = HW_STATUS_FAILED
   \<and> largeBuzzer (state (hw (run [(1000, Start), (4000, Update), (34000, Update),
          (40000, ForceHealth HW_STATUS_FAILED HW_STATUS_OK)] (boot True True True)))) = HW_STATUS_OK"
    by code_simp
  then have d': "largeBuzzer (state (hw (run [(1000, Start), (4000, Update), (34000, Update),
          (40000, ForceHealth HW_STATUS_FAILED HW_STATUS_OK)] (boot True True True)))) \<noteq> HW_STATUS_FAILED"
    by simp
  note r1 = due [rule_format, OF a]
  note r2 = not_due [rule_format, OF disjI1, OF b]
  note r3 = timeout [rule_format, OF c]
  have e: "currentState (ctrl (run [(1000, Start), (4000, Update), (34000, Update),
          (40000, ForceHealth HW_STATUS_FAILED HW_STATUS_OK)] (boot True True True))) = ALARM_ALERT
        \<and> isStageDurationExceeded 64000 (ctrl (run [(1000, Start), (4000, Update), (34000, Update),
          (40000, ForceHealth HW_STATUS_FAILED HW_STATUS_OK)] (boot True True True)))
        \<and> \<not> isSafetyTimeoutReached 64000 (ctrl (run [(1000, Start), (4000, Update), (34000, Update),
          (40000, ForceHealth HW_STATUS_FAILED HW_STATUS_OK)] (boot True True True)))
        \<and> largeBuzzer (state (hw (run [(1000, Start), (4000, Update), (34000, Update),
          (40000, ForceHealth HW_STATUS_FAILED HW_STATUS_OK)] (boot True True True)))) \<noteq> HW_STATUS_FAILED"
    using d d' by blast
  note r4 = escalated [rule_format, OF e]
  from a b c d r1 r2 r3 r4 show ?thesis by blast
qed

text \<open>
  The claim as first stated fails in two ways. With both buzzers failed, a start at
  clock reading 1 and the first tick at 300001: the check is due, but the safety timeout
  is tested first and stops the alarm through \<open>ALARM_STOPPED_TIMEOUT\<close>, without the
  hardware-issue flag. And with the small buzzer failing during Alert: the first tick at
  which the check is due, at 64000, is the tick that escalates to Emergency, the check
  then looks at the large buzzer only, and the alarm goes on.
\<close>

theorem hardware_failure_forces_stop_counterexample:
  "isActive (ctrl (snd (start 1 (boot True False False))))
   \<and> hardwareChecksEnabled (ctrl (snd (start 1 (boot True False False))))
   \<and> smallBuzzer (state (hw (snd (start 1 (boot True False False))))) = HW_STATUS_FAILED
   \<and> largeBuzzer (state (hw (snd (start 1 (boot True False False))))) = HW_STATUS_FAILED
   \<and> 10000 \<le> 300001 - lastCheck (snd (start 1 (boot True False False)))
   \<and> currentState (ctrl (update 300001 (snd (start 1 (boot True False False))))) = ALARM_IDLE
   \<and> previousState (ctrl (update 300001 (snd (start 1 (boot True False False)))))
        = ALARM_STOPPED_TIMEOUT
   \<and> stopSource (lastStatistics (ctrl (update 300001 (snd (start 1 (boot True False False))))))
        = STOP_SAFETY_TIMEOUT
   \<and> \<not> hardwareIssueDetected
        (lastStatistics (ctrl (update 300001 (snd (start 1 (boot True False False))))))
   \<and> currentState (ctrl (run [(1000, Start), (4000, Update), (34000, Update),
          (40000, ForceHealth HW_STATUS_FAILED HW_STATUS_OK)] (boot True True True)))
        = ALARM_ALERT
   \<and> smallBuzzer (state (hw (run [(1000, Start), (4000, Update), (34000, Update),
          (40000, ForceHealth HW_STATUS_FAILED HW_STATUS_OK)] (boot True True True))))
        = HW_STATUS_FAILED
   \<and> hardwareChecksEnabled (ctrl (run [(1000, Start), (4000, Update), (34000, Update),
          (40000, ForceHealth HW_STATUS_FAILED HW_STATUS_OK)] (boot True True True)))
   \<and> 10000 \<le> 64000 - lastCheck (run [(1000, Start), (4000, Update), (34000, Update),
          (40000, ForceHealth HW_STATUS_FAILED HW_STATUS_OK)] (boot True True True))
   \<and> currentState (ctrl (update 64000 (run [(1000, Start), (4000, Update), (34000, Update),
          (40000, ForceHealth HW_STATUS_FAILED HW_STATUS_OK)] (boot True True True))))
        = ALARM_EMERGENCY
   \<and> lastCheck (update 64000 (run [(1000, Start), (4000, Update), (34000, Update),
          (40000, ForceHealth HW_STATUS_FAILED HW_STATUS_OK)] (boot True True True))) = 64000"
  by code_simp

subsection \<open>C3: the escalation timeline\<close>

text \<open>
  Claim C3, as amended. \<open>ticks T ns w\<close> runs the ticks of the milliseconds after \<open>T\<close>:
  for the \<open>i\<close>-th entry \<open>n\<close> of \<open>ns\<close>, \<^verbatim>\<open>update()\<close> is called \<open>n + 1\<close> times at clock
  reading \<open>T + i + 1\<close>, so at least once in every millisecond; \<open>updates n T w\<close> is \<open>n\<close>
  calls at reading \<open>T\<close>. Let \<^verbatim>\<open>start()\<close> succeed at a clock reading \<open>T \<noteq> 0\<close>, with the
  hardware checks disabled or neither buzzer failed, and let no other call be made. Then
  the state after the ticks up to \<open>T + 3001\<close> is Warning, up to \<open>T + 33001\<close> Alert, up
  to \<open>T + 63001\<close> Emergency, and up to \<open>T + 300001\<close> Idle with the safety timeout as
  the recorded stop source. The clock may wrap around during the session.
\<close>

theorem escalation_timeline:
  "\<not> isActive (ctrl w) \<and> T \<noteq> 0
   \<and> (\<not> hardwareChecksEnabled (ctrl w)
       \<or> (smallBuzzer (state (hw w)) \<noteq> HW_STATUS_FAILED
           \<and> largeBuzzer (state (hw w)) \<noteq> HW_STATUS_FAILED))
   \<and> 300001 \<le> length ns
   \<longrightarrow> fst (start T w)
     \<and> currentState (ctrl (ticks T (take 3001 ns) (updates n T (snd (start T w)))))
         = ALARM_WARNING
     \<and> currentState (ctrl (ticks T (take 33001 ns) (updates n T (snd (start T w)))))
         = ALARM_ALERT
     \<and> currentState (ctrl (ticks T (take 63001 ns) (updates n T (snd (start T w)))))
         = ALARM_EMERGENCY
     \<and> currentState (ctrl (ticks T (take 300001 ns) (updates n T (snd (start T w)))))
         = ALARM_IDLE
     \<and> stopSource (lastStatistics
          (ctrl (ticks T (take 300001 ns) (updates n T (snd (start T w))))))
         = STOP_SAFETY_TIMEOUT"
proof (intro impI, elim conjE)
  assume na: "\<not> isActive (ctrl w)" and T: "T \<noteq> 0" and len: "300001 \<le> length ns"
    and h: "\<not> hardwareChecksEnabled (ctrl w)
       \<or> (smallBuzzer (state (hw w)) \<noteq> HW_STATUS_FAILED
           \<and> largeBuzzer (state (hw w)) \<noteq> HW_STATUS_FAILED)"
  from h have hw: "healthy w" by (simp add: healthy_def)
  have ph: "phase T (length (take m ns)) (ctrl (ticks T (take m ns) (updates n T (snd (start T w)))))"
    for m by (rule timeline [OF na hw])
  have l: "length (take 3001 ns) = 3001" "length (take 33001 ns) = 33001"
    "length (take 63001 ns) = 63001" "length (take 300001 ns) = 300001"
    using len by simp_all
  from ph [of 3001] ph [of 33001] ph [of 63001] ph [of 300001] T na
  show "fst (start T w)
     \<and> currentState (ctrl (ticks T (take 3001 ns) (updates n T (snd (start T w)))))
         = ALARM_WARNING
     \<and> currentState (ctrl (ticks T (take 33001 ns) (updates n T (snd (start T w)))))
         = ALARM_ALERT
     \<and> currentState (ctrl (ticks T (take 63001 ns) (updates n T (snd (start T w)))))
         = ALARM_EMERGENCY
     \<and> currentState (ctrl (ticks T (take 300001 ns) (updates n T (snd (start T w)))))
         = ALARM_IDLE
     \<and> stopSource (lastStatistics
          (ctrl (ticks T (take 300001 ns) (updates n T (snd (start T w))))))
         = STOP_SAFETY_TIMEOUT"
    unfolding l by (simp add: phase_def start_inactive_ctrl)
qed

theorem escalation_timeline_witness:
  "\<not> isActive (ctrl (boot True True True)) \<and> (1000 :: u32) \<noteq> 0
   \<and> smallBuzzer (state (hw (boot True True True))) = HW_STATUS_OK
   \<and> largeBuzzer (state (hw (boot True True True))) = HW_STATUS_OK
   \<and> 300001 \<le> length (replicate 300001 (0 :: nat))
   \<and> fst (start 1000 (boot True True True))
   \<and> currentState (ctrl (ticks 1000 (take 3001 (replicate 300001 0))
        (updates 0 1000 (snd (start 1000 (boot True True True)))))) = ALARM_WARNING
   \<and> currentState (ctrl (ticks 1000 (take 33001 (replicate 300001 0))
        (updates 0 1000 (snd (start 1000 (boot True True True)))))) = ALARM_ALERT
   \<and> currentState (ctrl (ticks 1000 (take 63001 (replicate 300001 0))
        (updates 0 1000 (snd (start 1000 (boot True True True)))))) = ALARM_EMERGENCY
   \<and> currentState (ctrl (ticks 1000 (take 300001 (replicate 300001 0))
        (updates 0 1000 (snd (start 1000 (boot True True True)))))) = ALARM_IDLE
   \<and> stopSource (lastStatistics (ctrl (ticks 1000 (take 300001 (replicate 300001 0))
        (updates 0 1000 (snd (start 1000 (boot True True True))))))) = STOP_SAFETY_TIMEOUT"
proof -
  note inst = escalation_timeline [where w = "boot True True True" and T = 1000
      and ns = "replicate 300001 0" and n = 0]
  have a: "\<not> isActive (ctrl (boot True True True))"
    by code_simp
  have b: "(1000 :: u32) \<noteq> 0"
    by simp
  have c: "smallBuzzer (state (hw (boot True True True))) = HW_STATUS_OK
      \<and> largeBuzzer (state (hw (boot True True True))) = HW_STATUS_OK"
    by code_simp
  then have c': "\<not> hardwareChecksEnabled (ctrl (boot True True True))
       \<or> (smallBuzzer (state (hw (boot True True True))) \<noteq> HW_STATUS_FAILED
           \<and> largeBuzzer (state (hw (boot True True True))) \<noteq> HW_STATUS_FAILED)"
    by simp
  have d: "300001 \<le> length (replicate 300001 (0 :: nat))"
    by simp
  from inst a b c c' d show ?thesis by blast
qed

text \<open>
  The claim as first stated fails in two ways. With both buzzers failed and the checks
  enabled, a start at 20000 is stopped by the first tick's health check, so the state at
  \<open>T + 3001\<close> is Idle with the hardware error as stop source, not Warning. And after a
  start at clock reading 0 the start timestamp equals the value that marks it unset, the
  safety timeout is never reached, and the state at \<open>T + 300001\<close> is still Emergency.
\<close>

theorem escalation_timeline_counterexample:
  "fst (start 20000 (boot True False False))
   \<and> currentState (ctrl (ticks 20000 (0 # replicate 3000 0)
        (snd (start 20000 (boot True False False))))) = ALARM_IDLE
   \<and> stopSource (lastStatistics (ctrl (ticks 20000 (0 # replicate 3000 0)
        (snd (start 20000 (boot True False False)))))) = STOP_HARDWARE_ERROR
   \<and> fst (start 0 (boot True True True))
   \<and> currentState (ctrl (ticks 0 (replicate 300001 0)
        (snd (start 0 (boot True True True))))) = ALARM_EMERGENCY"
proof -
  have a: "fst (start 20000 (boot True False False))"
    by code_simp
  have b: "\<not> isActive (ctrl (update 20001 (snd (start 20000 (boot True False False)))))"
    by code_simp
  have c: "currentState (ctrl (update 20001 (snd (start 20000 (boot True False False)))))
             = ALARM_IDLE
      \<and> stopSource (lastStatistics
            (ctrl (update 20001 (snd (start 20000 (boot True False False))))))
             = STOP_HARDWARE_ERROR"
    by code_simp
  have d: "ticks 20000 (0 # replicate 3000 0) (snd (start 20000 (boot True False False)))
             = update 20001 (snd (start 20000 (boot True False False)))"
    using ticks_inactive [OF b] by simp
  have e: "fst (start 0 (boot True True True))"
    by code_simp
  have f: "\<not> isActive (ctrl (boot True True True))" "healthy (boot True True True)"
    by code_simp+
  from timeline [OF f, of 0 "replicate 300001 0" 0]
  have g: "currentState (ctrl (ticks 0 (replicate 300001 0)
        (snd (start 0 (boot True True True))))) = ALARM_EMERGENCY"
    by (simp add: phase_def)
  from a c d e g show ?thesis by simp
qed

end
